theory Spec2Isabelle
  imports Main "HOL-Library.AList"
begin

section \<open>JavaScript values\<close>

text \<open>
  The values that flow through \<open>index.js\<close>: front matter, global data, call-time data and
  the merged render context are plain JavaScript objects made by the YAML/JSON decoders.
  An object is an association list from property names to values, in insertion order;
  a well-formed object has no repeated property name.  Numbers are the integers
  (the program only ever compares a number with \<open>0\<close>).  The prototype chain is not modelled.
\<close>

datatype jsval =
    Undefined
  | Null
  | JBool bool
  | Num int
  | Str string
  | Arr "jsval list"
  | Obj "(string \<times> jsval) list"

type_synonym obj = "(string \<times> jsval) list"

text \<open>Property read \<open>o[k]\<close>: a missing property reads as \<open>undefined\<close>.\<close>

definition obj_get :: "obj \<Rightarrow> string \<Rightarrow> jsval" where
  "obj_get ob k = (case map_of ob k of None \<Rightarrow> Undefined | Some v \<Rightarrow> v)"

text \<open>Property write \<open>o[k] = v\<close>: an existing property keeps its place, a new one is appended.\<close>

definition obj_set :: "string \<Rightarrow> jsval \<Rightarrow> obj \<Rightarrow> obj" where
  "obj_set k v ob = AList.update k v ob"

definition has_key :: "obj \<Rightarrow> string \<Rightarrow> bool" where
  "has_key ob k = (k \<in> set (map fst ob))"

definition wf_obj :: "obj \<Rightarrow> bool" where
  "wf_obj ob = distinct (map fst ob)"

text \<open>The property path read \<open>v.k1.k2...\<close>, \<open>undefined\<close> as soon as a step is not an object.\<close>

fun get_in :: "jsval \<Rightarrow> string list \<Rightarrow> jsval" where
  "get_in v [] = v"
| "get_in (Obj ob) (k # ks) = get_in (obj_get ob k) ks"
| "get_in v (k # ks) = Undefined"

text \<open>JavaScript truthiness, as used by \<open>!x\<close>, \<open>x || y\<close> and \<open>if (x)\<close>.\<close>

fun truthy :: "jsval \<Rightarrow> bool" where
  "truthy Undefined = False"
| "truthy Null = False"
| "truthy (JBool b) = b"
| "truthy (Num n) = (n \<noteq> 0)"
| "truthy (Str s) = (s \<noteq> [])"
| "truthy (Arr xs) = True"
| "truthy (Obj ob) = True"

subsection \<open>String conversion\<close>

text \<open>\<open>'' + v\<close>, needed where the program splices a value into a message.\<close>

fun digits :: "nat \<Rightarrow> nat \<Rightarrow> string" where
  "digits 0 n = []"
| "digits (Suc f) n =
     (if n < 10 then [char_of (48 + n)]
      else digits f (n div 10) @ [char_of (48 + n mod 10)])"

definition string_of_nat :: "nat \<Rightarrow> string" where
  "string_of_nat n = digits (Suc n) n"

definition string_of_int :: "int \<Rightarrow> string" where
  "string_of_int i = (if i < 0 then CHR ''-'' # string_of_nat (nat (- i)) else string_of_nat (nat i))"

fun join :: "string \<Rightarrow> string list \<Rightarrow> string" where
  "join sep [] = []"
| "join sep [x] = x"
| "join sep (x # y # ys) = x @ sep @ join sep (y # ys)"

fun to_str :: "jsval \<Rightarrow> string" where
  "to_str Undefined = ''undefined''"
| "to_str Null = ''null''"
| "to_str (JBool b) = (if b then ''true'' else ''false'')"
| "to_str (Num n) = string_of_int n"
| "to_str (Str s) = s"
| "to_str (Arr xs) =
     join '','' (map (\<lambda>x. if x = Undefined \<or> x = Null then [] else to_str x) xs)"
| "to_str (Obj ob) = ''[object Object]''"

subsection \<open>Errors\<close>

text \<open>A thrown \<open>Error\<close>: its \<open>message\<close> and, for file-system errors, its \<open>code\<close>.\<close>

datatype jserror = JsError (code: "string option") (message: string)

text \<open>\<open>new Error(msg)\<close> carries no code.\<close>

definition new_Error :: "string \<Rightarrow> jserror" where
  "new_Error msg = JsError None msg"

section \<open>The \<open>merge\<close> package\<close>

text \<open>
  \<open>merge\<close> is the npm dependency \<open>merge ^1.2.1\<close> named in \<open>package.json\<close>.  Its
  default export \<open>merge(clone?, a, b, ...)\<close> is the one-level merge: the result is \<open>{}\<close>
  when the first argument is \<open>true\<close> or the first object argument is not a plain object,
  otherwise the first argument itself; then every key of every plain-object argument is
  assigned onto the result in argument order, \<open>result[key] = item[key]\<close>.  (The deep
  variant of the package is \<open>merge.recursive\<close>, which \<open>index.js\<close> never calls.)  With
  \<open>clone\<close> the assigned values are deep copies, which are the same values here.
\<close>

definition merge_item :: "jsval \<Rightarrow> obj \<Rightarrow> obj" where
  "merge_item item result =
     (case item of Obj kvs \<Rightarrow> fold (\<lambda>(k, v) r. obj_set k v r) kvs result | _ \<Rightarrow> result)"

definition merge :: "bool \<Rightarrow> jsval list \<Rightarrow> obj" where
  "merge clone argv =
     fold merge_item argv
       (case argv of
          Obj ob # _ \<Rightarrow> if clone then [] else ob
        | _ \<Rightarrow> [])"

text \<open>\<open>merge.clone(x)\<close>: a deep copy.\<close>

definition merge_clone :: "jsval \<Rightarrow> jsval" where
  "merge_clone v = v"

section \<open>Collaborators\<close>

text \<open>
  What \<open>index.js\<close> calls but does not define is a parameter of the model:
  \<^item> \<open>gm_read\<close>: \<open>gray-matter\<close>'s \<open>gm.read(file, {strict: true})\<close>, the decoded front matter
    and the body text, or the error it throws (\<open>EISDIR\<close>, \<open>ENOENT\<close>, a YAML error);
  \<^item> \<open>hb_render\<close>: \<open>Handlebars.compile(page, ...)\<close> applied to a context, under the partials
    registered at that moment: the rendered text or the error thrown;
  \<^item> \<open>data_parse\<close>: \<open>Data.parse(argument, callback)\<close> of the missing \<open>lib/data.js\<close>, as the
    sequence of \<open>(err, data)\<close> pairs its callback receives, \<open>err\<close> being the message of a
    truthy error;
  \<^item> \<open>merge_glob\<close>: \<open>mergeGlob(items, {nodir: true})\<close> of the missing \<open>lib/merge-glob.js\<close>;
  \<^item> \<open>p_basename\<close>, \<open>p_extname\<close>, \<open>p_resolve\<close>: Node's \<open>path.basename(p, ext?)\<close>,
    \<open>path.extname(p)\<close>, \<open>path.resolve(p)\<close> on strings, and \<open>path_arg_error\<close>: the
    \<open>TypeError\<close> they throw when given a value that is not a string.
\<close>

record env =
  gm_read :: "string \<Rightarrow> jserror + (obj \<times> string)"
  hb_render :: "(string \<rightharpoonup> string) \<Rightarrow> string \<Rightarrow> obj \<Rightarrow> jserror + string"
  data_parse :: "jsval \<Rightarrow> (string option \<times> jsval) list"
  merge_glob :: "string list \<Rightarrow> string list"
  p_basename :: "string \<Rightarrow> string option \<Rightarrow> string"
  p_extname :: "string \<Rightarrow> string"
  p_resolve :: "string \<Rightarrow> string"
  path_arg_error :: "jsval \<Rightarrow> jserror"

text \<open>\<open>stripExtname(file) = path.basename(file, path.extname(file))\<close>.\<close>

definition stripExtname :: "env \<Rightarrow> string \<Rightarrow> string" where
  "stripExtname E file = p_basename E file (Some (p_extname E file))"

section \<open>The Taft object\<close>

text \<open>
  Modelled from the spec: the class \<open>Content\<close> of \<open>lib/content.js\<close>, which is not among
  the sources.  "Content: the result of rendering one template.  body: rendered text.
  data: the fully-resolved context used to render it.  source: originating file, set by
  the top-level build call only".
\<close>

record content =
  body :: string
  data :: obj
  source :: "string option"

text \<open>
  Modelled from the spec: the constructor \<open>new Content(body, data)\<close> of \<open>lib/content.js\<close>;
  the source is not set by it.
\<close>

definition new_Content :: "string \<Rightarrow> obj \<Rightarrow> content" where
  "new_Content b d = \<lparr>body = b, data = d, source = None\<rparr>"

text \<open>
  Modelled from the spec: \<open>new Content()\<close> without arguments, the "empty Content" that a
  caller substitutes for a failed render.
\<close>

definition empty_Content :: content where
  "empty_Content = new_Content [] []"

text \<open>
  Modelled from the spec: \<open>content.toString()\<close> of \<open>lib/content.js\<close>, the rendered text that
  is registered as the insertion-point partial.
\<close>

definition content_toString :: "content \<Rightarrow> string" where
  "content_toString c = body c"

text \<open>
  The closure returned by \<open>_createTemplate\<close> captures \<open>file\<close>, \<open>page\<close>, \<open>data\<close> and
  \<open>options.isLayout\<close>; a compiled template is the record of what it captured.
\<close>

record template =
  tpl_file :: string
  tpl_page :: string
  tpl_data :: obj
  tpl_isLayout :: bool

text \<open>
  A value of the \<open>_layouts\<close> Map: the path given at registration, or what \<open>_getLayout\<close>
  stored after \<open>_createTemplate\<close>: a closure, or \<open>undefined\<close> for an unpublished layout.
\<close>

datatype layout_entry = LPath string | LTemplate template | LUndefined

text \<open>
  The fields of a \<open>Taft\<close> instance that the modelled methods read or write, the partials
  registered with Handlebars, and what has been written to \<open>console.error\<close>.
\<close>

record taft =
  silent :: bool
  verbose :: bool
  options_defaultLayout :: "string option"
  t_data :: obj
  t_layouts :: "(string \<times> layout_entry) list"
  t_defaultLayout :: "string option"
  hb_partials :: "string \<rightharpoonup> string"
  console :: "string list"

subsection \<open>Diagnostics\<close>

definition err :: "string \<Rightarrow> taft \<Rightarrow> taft" where
  "err msg st = st\<lparr>console := console st @ [msg]\<rparr>"

definition info :: "string \<Rightarrow> taft \<Rightarrow> taft" where
  "info msg st = (if \<not> silent st then st\<lparr>console := console st @ [msg]\<rparr> else st)"

definition debug :: "string \<Rightarrow> taft \<Rightarrow> taft" where
  "debug msg st =
     (if verbose st \<and> \<not> silent st then st\<lparr>console := console st @ [msg]\<rparr> else st)"

text \<open>Truthiness of a field that is unset or holds a string.\<close>

definition truthy_str :: "string option \<Rightarrow> bool" where
  "truthy_str s = (case s of None \<Rightarrow> False | Some x \<Rightarrow> x \<noteq> [])"

subsection \<open>\<open>Taft.prototype.data\<close>\<close>

text \<open>
  \<open>Object.keys(v)\<close>: throws on \<open>undefined\<close> and \<open>null\<close> (here \<open>None\<close>); the indices of a
  string or an array; nothing for a number or a boolean.
\<close>

fun object_keys :: "jsval \<Rightarrow> string list option" where
  "object_keys Undefined = None"
| "object_keys Null = None"
| "object_keys (Obj ob) = Some (map fst ob)"
| "object_keys (Str s) = Some (map string_of_nat [0..<length s])"
| "object_keys (Arr xs) = Some (map string_of_nat [0..<length xs])"
| "object_keys v = Some []"

text \<open>
  \<open>argument.substr(0, 60)\<close>: \<open>substr\<close> exists on strings only; on any other argument the
  call throws a \<open>TypeError\<close> (here \<open>None\<close>).
\<close>

fun substr_0_60 :: "jsval \<Rightarrow> string option" where
  "substr_0_60 (Str s) = Some (take 60 s)"
| "substr_0_60 v = None"

text \<open>
  The callback passed to \<open>Data.parse\<close>.  The \<open>try\<close> block ends at the first throw, before
  \<open>merge(this._data, data)\<close>; the \<open>catch\<close> logs and goes on.
\<close>

definition merge_into_data :: "jsval \<Rightarrow> taft \<Rightarrow> taft" where
  "merge_into_data d st = st\<lparr>t_data := merge False [Obj (t_data st), d]\<rparr>"

definition data_callback :: "jsval \<Rightarrow> string option \<times> jsval \<Rightarrow> taft \<Rightarrow> taft" where
  "data_callback argument r st =
     (case r of
        (Some msg, d) \<Rightarrow> err msg st
      | (None, d) \<Rightarrow>
          (case object_keys d of
             None \<Rightarrow> err ''error reading '' st
           | Some keys \<Rightarrow>
               if length keys = 1 then merge_into_data d (debug (''parsed '' @ hd keys) st)
               else if length keys > 1 then
                 (case substr_0_60 argument of
                    None \<Rightarrow> err ''error reading '' st
                  | Some s \<Rightarrow> merge_into_data d (debug (''parsed '' @ s) st))
               else merge_into_data d st))"

definition data_argument :: "env \<Rightarrow> jsval \<Rightarrow> taft \<Rightarrow> taft" where
  "data_argument E argument st = fold (data_callback argument) (data_parse E argument) st"

text \<open>\<open>this.data(a, b, ...)\<close> with at least one argument; the arguments are already flattened.\<close>

definition data_add :: "env \<Rightarrow> jsval list \<Rightarrow> taft \<Rightarrow> taft" where
  "data_add E arguments st = fold (data_argument E) arguments st"

subsection \<open>\<open>Taft.prototype.layouts\<close> and \<open>Taft.prototype.defaultLayout\<close>\<close>

text \<open>
  The \<open>_layouts\<close> Map is an association list in insertion order; \<open>Map.set\<close> on a present
  key replaces its value in place.  \<open>this._layouts.size === 1\<close> is the test that the list
  is a singleton, and \<open>Array.from(this._layouts)[0][0]\<close> is then its only key.
\<close>

definition layouts_set :: "string \<Rightarrow> layout_entry \<Rightarrow> taft \<Rightarrow> taft" where
  "layouts_set name v st = st\<lparr>t_layouts := AList.update name v (t_layouts st)\<rparr>"

definition layouts_has :: "taft \<Rightarrow> string \<Rightarrow> bool" where
  "layouts_has st name = (name \<in> set (map fst (t_layouts st)))"

text \<open>\<open>this.layouts(a, b, ...)\<close> with at least one argument; the arguments are already flattened.\<close>

definition layouts_add :: "env \<Rightarrow> string list \<Rightarrow> taft \<Rightarrow> taft" where
  "layouts_add E items st =
     (let st1 = fold (\<lambda>item. layouts_set (stripExtname E item) (LPath item)) (merge_glob E items) st;
          st2 = debug (''added layouts: '' @ join '', '' (map fst (t_layouts st1))) st1;
          st3 = (case t_layouts st2 of
                   [(k, v)] \<Rightarrow> st2\<lparr>t_defaultLayout := Some k\<rparr>
                 | _ \<Rightarrow>
                     (case options_defaultLayout st2 of
                        None \<Rightarrow> st2
                      | Some d \<Rightarrow>
                          if d \<noteq> [] then st2\<lparr>t_defaultLayout := Some (stripExtname E d)\<rparr>
                          else st2))
      in case t_defaultLayout st3 of
           None \<Rightarrow> st3
         | Some d \<Rightarrow> if d \<noteq> [] then debug (''set default layout to '' @ d) st3 else st3)"

text \<open>\<open>this.defaultLayout(layout)\<close> with an argument, and without.\<close>

definition defaultLayout_set :: "env \<Rightarrow> string \<Rightarrow> taft \<Rightarrow> taft" where
  "defaultLayout_set E layout st =
     (let l = stripExtname E layout
      in if layouts_has st l then st\<lparr>t_defaultLayout := Some l\<rparr>
         else info (''Not setting default layout. Could not find: '' @ l) st)"

definition defaultLayout_get :: "taft \<Rightarrow> string option" where
  "defaultLayout_get st = t_defaultLayout st"

subsection \<open>\<open>Taft.prototype._createTemplate\<close>\<close>

text \<open>\<open>String.prototype.trimLeft\<close> on the ASCII white space characters.\<close>

definition is_space :: "char \<Rightarrow> bool" where
  "is_space c = (c \<in> set [CHR '' '', CHR 0x09, CHR 0x0A, CHR 0x0B, CHR 0x0C, CHR 0x0D])"

definition trimLeft :: "string \<Rightarrow> string" where
  "trimLeft s = dropWhile is_space s"

definition unpublished :: "obj \<Rightarrow> bool" where
  "unpublished context =
     (obj_get context ''published'' = JBool False \<or> obj_get context ''published'' = Num 0)"

text \<open>The layout assignment: the context after it, and the state after its \<open>debug\<close> call.\<close>

definition assign_layout :: "string \<Rightarrow> bool \<Rightarrow> obj \<Rightarrow> taft \<Rightarrow> obj \<times> taft" where
  "assign_layout file isLayout context st =
     (if obj_get context ''layout'' = JBool False \<or> obj_get context ''layout'' = Num 0
      then (context, debug (''not using layout with '' @ file) st)
      else
        (case t_defaultLayout st of
           Some d \<Rightarrow>
             if \<not> truthy (obj_get context ''layout'') \<and> d \<noteq> [] \<and> \<not> isLayout
             then (obj_set ''layout'' (Str d) context, st)
             else (context, st)
         | None \<Rightarrow> (context, st)))"

text \<open>
  The result is the error thrown by \<open>gm.read\<close>, or \<open>None\<close> for the bare \<open>return\<close> of an
  unpublished file, or the closure.
\<close>

definition createTemplate ::
  "env \<Rightarrow> string \<Rightarrow> bool \<Rightarrow> taft \<Rightarrow> (jserror + template option) \<times> taft" where
  "createTemplate E file isLayout st =
     (case gm_read E file of
        Inl e \<Rightarrow> (Inl e, st)
      | Inr (context, text) \<Rightarrow>
          let page = trimLeft text
          in if unpublished context then (Inr None, st)
             else
               let (context1, st1) = assign_layout file isLayout context st;
                   d = merge True [Obj (t_data st1), Obj context1]
               in (Inr (Some \<lparr>tpl_file = file, tpl_page = page, tpl_data = d,
                                 tpl_isLayout = isLayout\<rparr>), st1))"

subsection \<open>\<open>Taft.prototype._getLayout\<close>\<close>

definition entry_of :: "template option \<Rightarrow> layout_entry" where
  "entry_of t = (case t of None \<Rightarrow> LUndefined | Some x \<Rightarrow> LTemplate x)"

text \<open>
  \<open>path.extname(name)\<close> throws when \<open>name\<close> is not a string.  Otherwise the result is the
  compiled layout, or \<open>None\<close> where the source returns \<open>undefined\<close>: the name is not
  registered (after \<open>this.err\<close>), or the stored value is the \<open>undefined\<close> of an unpublished
  layout.
\<close>

definition getLayout :: "env \<Rightarrow> jsval \<Rightarrow> taft \<Rightarrow> (jserror + template option) \<times> taft" where
  "getLayout E name st =
     (case name of
        Str s \<Rightarrow>
          let n = (if p_extname E s \<noteq> [] then stripExtname E s else s)
          in (case map_of (t_layouts st) n of
                None \<Rightarrow> (Inr None, err (''could not find layout: '' @ n) st)
              | Some (LPath p) \<Rightarrow>
                  (case createTemplate E p True st of
                     (Inl e, st1) \<Rightarrow> (Inl e, st1)
                   | (Inr t, st1) \<Rightarrow> (Inr t, layouts_set n (entry_of t) st1))
              | Some (LTemplate t) \<Rightarrow> (Inr (Some t), st)
              | Some LUndefined \<Rightarrow> (Inr None, st))
      | _ \<Rightarrow> (Inl (path_arg_error E name), st))"

subsection \<open>The render closure and \<open>Taft.prototype._applyLayout\<close>\<close>

text \<open>
  A layout may name a layout, so rendering recurses through \<open>_applyLayout\<close> for as long as
  the chain of layouts goes on, and a cyclic chain never ends.  The recursion is bounded
  by fuel, spent on each call of a layout's closure; \<open>OutOfFuel\<close> is the outcome of a
  chain longer than the fuel.
\<close>

datatype 'a outcome = OutOfFuel | Threw jserror | Ret 'a

definition registerPartial :: "string \<Rightarrow> string \<Rightarrow> taft \<Rightarrow> taft" where
  "registerPartial name s st = st\<lparr>hb_partials := (hb_partials st)(name \<mapsto> s)\<rparr>"

definition unregisterPartial :: "string \<Rightarrow> taft \<Rightarrow> taft" where
  "unregisterPartial name st = st\<lparr>hb_partials := (hb_partials st)(name := None)\<rparr>"

text \<open>Line 211: \<open>preferGlobal ? merge(pageData, data) : merge(true, data, pageData)\<close>.\<close>

definition tplData_merge :: "bool \<Rightarrow> obj \<Rightarrow> jsval \<Rightarrow> obj" where
  "tplData_merge preferGlobal d pageData =
     (if preferGlobal then merge False [pageData, Obj d] else merge True [Obj d, pageData])"

text \<open>Lines 214-215: the layout is not the file itself.\<close>

definition clear_own_layout :: "env \<Rightarrow> string \<Rightarrow> obj \<Rightarrow> obj" where
  "clear_own_layout E file tplData =
     (if obj_get tplData ''layout'' = Str (p_basename E file None)
         \<or> obj_get tplData ''layout'' = Str (stripExtname E file)
      then obj_set ''layout'' Undefined tplData
      else tplData)"

text \<open>
  The \<open>catch\<close> and \<open>finally\<close> clauses of \<open>_applyLayout\<close>, applied to the outcome of its
  \<open>try\<close> block.
\<close>

definition catch_finally :: "jsval \<Rightarrow> content outcome \<times> taft \<Rightarrow> content outcome \<times> taft" where
  "catch_finally layout r =
     (case r of
        (OutOfFuel, st) \<Rightarrow> (OutOfFuel, st)
      | (Threw e, st) \<Rightarrow>
          (Threw (new_Error (''unable to render layout '' @ to_str layout @ '' ('' @ message e @ '')'')),
           unregisterPartial ''body'' st)
      | (Ret c, st) \<Rightarrow> (Ret c, unregisterPartial ''body'' st))"

definition set_page :: "bool \<Rightarrow> content \<Rightarrow> content" where
  "set_page isLayout c =
     (if \<not> isLayout then c\<lparr>data := obj_set ''page'' (merge_clone (Obj (data c))) (data c)\<rparr> else c)"

fun applyLayout ::
    "env \<Rightarrow> nat \<Rightarrow> jsval \<Rightarrow> content \<Rightarrow> bool \<Rightarrow> taft \<Rightarrow> content outcome \<times> taft"
  and render ::
    "env \<Rightarrow> nat \<Rightarrow> template \<Rightarrow> jsval \<Rightarrow> bool \<Rightarrow> taft \<Rightarrow> content outcome \<times> taft"
where
  "applyLayout E fuel layout c isLayout st =
     (if \<not> truthy layout then (Ret c, st)
      else
        catch_finally layout
          (case getLayout E layout st of
             (Inl e, st1) \<Rightarrow> (Threw e, st1)
           | (Inr None, st1) \<Rightarrow> (Ret c, st1)
           | (Inr (Some layout_template), st1) \<Rightarrow>
               (let st2 = registerPartial ''body'' (content_toString c) st1;
                    c1 = set_page isLayout c
                in case fuel of
                     0 \<Rightarrow> (OutOfFuel, st2)
                   | Suc n \<Rightarrow> render E n layout_template (Obj (data c1)) True st2)))"
| "render E fuel t pageData preferGlobal st =
     (let tplData = clear_own_layout E (tpl_file t)
                      (tplData_merge preferGlobal (tpl_data t) pageData)
      in case hb_render E (hb_partials st) (tpl_page t) tplData of
           Inl e \<Rightarrow> (Threw e, st)
         | Inr s \<Rightarrow>
             applyLayout E fuel (obj_get tplData ''layout'') (new_Content s tplData)
               (tpl_isLayout t) st)"

subsection \<open>\<open>Taft.prototype.build\<close>\<close>

text \<open>The \<open>catch\<close> clause of \<open>build\<close> and the two statements after it.\<close>

definition build_catch :: "string \<Rightarrow> jserror \<Rightarrow> taft \<Rightarrow> content option outcome \<times> taft" where
  "build_catch file e st =
     (if code e = Some ''EISDIR'' then (Ret None, st)
      else (Ret (Some (empty_Content\<lparr>source := Some file\<rparr>)),
            err (''error building '' @ file @ '': '' @ message e) st))"

definition build ::
  "env \<Rightarrow> nat \<Rightarrow> string \<Rightarrow> jsval \<Rightarrow> taft \<Rightarrow> content option outcome \<times> taft" where
  "build E fuel file d st =
     (case createTemplate E (p_resolve E file) False st of
        (Inl e, st1) \<Rightarrow> build_catch file e st1
      | (Inr None, st1) \<Rightarrow> (Ret None, debug (''ignoring '' @ file) st1)
      | (Inr (Some t), st1) \<Rightarrow>
          (case render E fuel t d False (debug (''building: '' @ file) st1) of
             (OutOfFuel, st2) \<Rightarrow> (OutOfFuel, st2)
           | (Threw e, st2) \<Rightarrow> build_catch file e st2
           | (Ret c, st2) \<Rightarrow> (Ret (Some (c\<lparr>source := Some file\<rparr>)), st2)))"

subsection \<open>Reachable instances\<close>

text \<open>What the default-layout rule depends on: the registered names, the default, the option.\<close>

definition layout_view :: "taft \<Rightarrow> string list \<times> string option \<times> string option" where
  "layout_view st = (map fst (t_layouts st), t_defaultLayout st, options_defaultLayout st)"


text \<open>
  The constructor sets \<open>_layouts\<close> to an empty Map and leaves \<open>_defaultLayout\<close> unset, then
  calls \<open>data\<close>, \<open>helpers\<close>, \<open>partials\<close> and \<open>layouts\<close>; afterwards the caller may call any
  method in any order.  \<open>helpers\<close> and \<open>partials\<close> are not modelled: they touch only the
  Handlebars registries and the console, which is what the rule \<open>registry\<close> allows.
\<close>

inductive reachable :: "env \<Rightarrow> taft \<Rightarrow> bool" for E :: env where
  fresh: "t_data st = [] \<Longrightarrow> t_layouts st = [] \<Longrightarrow> t_defaultLayout st = None \<Longrightarrow> reachable E st"
| data: "reachable E st \<Longrightarrow> reachable E (data_add E arguments st)"
| layouts: "reachable E st \<Longrightarrow> reachable E (layouts_add E items st)"
| defaultLayout: "reachable E st \<Longrightarrow> reachable E (defaultLayout_set E layout st)"
| build: "reachable E st \<Longrightarrow> reachable E (snd (build E fuel file d st))"
| registry: "reachable E st \<Longrightarrow> reachable E (st\<lparr>hb_partials := ps, console := out\<rparr>)"

section \<open>A small site\<close>

text \<open>
  Concrete collaborators on which the theorems below are run: POSIX-style path functions,
  a handful of files, two data sources, and, in place of Handlebars, a renderer that
  fails on the template \<open>{{#oops}}\<close>, fills in the title of \<open><p>{{title}}</p>\<close>, and
  returns any other template text followed by the \<open>body\<close> partial when one is
  registered.
\<close>

definition site_basename :: "string \<Rightarrow> string option \<Rightarrow> string" where
  "site_basename p ext =
     (let b = rev (takeWhile (\<lambda>c. c \<noteq> CHR ''/'') (rev p))
      in case ext of
           None \<Rightarrow> b
         | Some e \<Rightarrow>
             if e \<noteq> [] \<and> length e < length b \<and> drop (length b - length e) b = e
             then take (length b - length e) b
             else b)"

definition site_extname :: "string \<Rightarrow> string" where
  "site_extname p =
     (let b = site_basename p None;
          e = rev (takeWhile (\<lambda>c. c \<noteq> CHR ''.'') (rev b))
      in if CHR ''.'' \<in> set b \<and> length e + 1 < length b then CHR ''.'' # e else [])"

definition site_files :: "string \<Rightarrow> jserror + (obj \<times> string)" where
  "site_files f =
     (if f = ''/site/page.html'' then
        Inr ([(''title'', Str ''Hi'')], CHR 0x0A # ''<p>{{title}}</p>'')
      else if f = ''/site/layouts/main.html'' then
        Inr ([], ''{{site}}: {{> body}}'')
      else if f = ''/site/layouts/broken.html'' then
        Inr ([], ''{{#oops}}'')
      else if f = ''/site/layouts/hidden.html'' then
        Inr ([(''published'', JBool False)], ''hidden'')
      else if f = ''/site/layouts/loop.html'' then
        Inr ([(''layout'', Str ''x/loop.html'')], ''loop'')
      else if f = ''/site/ext.html'' then
        Inr ([(''layout'', Str ''main.hbs'')], ''ext'')
      else if f = ''/site/bad.html'' then
        Inr ([(''layout'', Str ''broken'')], ''bad'')
      else if f = ''/site/self.html'' then
        Inr ([(''layout'', Str ''self'')], ''me'')
      else if f = ''/site/draft.html'' then
        Inr ([(''published'', JBool False)], ''draft'')
      else if f = ''/site/posts'' then
        Inl (JsError (Some ''EISDIR'') ''EISDIR: illegal operation on a directory, read'')
      else
        Inl (JsError (Some ''ENOENT'') ''ENOENT: no such file or directory''))"

definition site_render :: "(string \<rightharpoonup> string) \<Rightarrow> string \<Rightarrow> obj \<Rightarrow> jserror + string" where
  "site_render ps page ctx =
     (if page = ''{{#oops}}'' then Inl (JsError None ''Parse error on line 1'')
      else if page = ''<p>{{title}}</p>'' then
        Inr (''<p>'' @ to_str (obj_get ctx ''title'') @ ''</p>'')
      else Inr (page @ (case ps ''body'' of None \<Rightarrow> [] | Some b \<Rightarrow> ''|'' @ b)))"

definition site_parse :: "jsval \<Rightarrow> (string option \<times> jsval) list" where
  "site_parse v =
     (case v of
        Obj ob \<Rightarrow> [(None, Obj ob)]
      | Str s \<Rightarrow>
          if s = ''first.yaml'' then
            [(None, Obj [(''site'', Str ''X''), (''title'', Str ''Default''),
                         (''nav'', Obj [(''home'', Str ''/'')])])]
          else if s = ''second.yaml'' then
            [(None, Obj [(''title'', Str ''Override''),
                         (''nav'', Obj [(''about'', Str ''/about'')])])]
          else [(Some (''could not read '' @ s), Undefined)]
      | _ \<Rightarrow> [(Some ''unsupported data source'', Undefined)])"

definition site :: env where
  "site =
     \<lparr>gm_read = site_files, hb_render = site_render, data_parse = site_parse,
      merge_glob = (\<lambda>items. items), p_basename = site_basename, p_extname = site_extname,
      p_resolve = (\<lambda>p. p),
      path_arg_error = (\<lambda>v. JsError (Some ''ERR_INVALID_ARG_TYPE'')
                                ''The path argument must be of type string'')\<rparr>"

text \<open>An instance as the constructor leaves it when given no options, and a silent one.\<close>

definition taft0 :: taft where
  "taft0 =
     \<lparr>silent = False, verbose = False, options_defaultLayout = None, t_data = [],
      t_layouts = [], t_defaultLayout = None, hb_partials = Map.empty, console = []\<rparr>"

definition taft_silent :: taft where
  "taft_silent = taft0\<lparr>silent := True\<rparr>"

text \<open>The instance after \<open>data('first.yaml')\<close> and the registration of three layouts.\<close>

definition site_taft :: taft where
  "site_taft =
     layouts_add site
       [''/site/layouts/main.html'', ''/site/layouts/broken.html'', ''/site/layouts/hidden.html'']
       (data_add site [Str ''first.yaml''] taft0)"

text \<open>The layout \<open>main\<close> as \<open>_getLayout\<close> compiles it in that instance.\<close>

definition main_layout :: template where
  "main_layout =
     \<lparr>tpl_file = ''/site/layouts/main.html'', tpl_page = ''{{site}}: {{> body}}'',
      tpl_data = [(''site'', Str ''X''), (''title'', Str ''Default''),
                  (''nav'', Obj [(''home'', Str ''/'')])],
      tpl_isLayout = True\<rparr>"

text \<open>The rendered page \<open>/site/page.html\<close>, before any layout.\<close>

definition page_content :: content where
  "page_content = new_Content ''<p>Hi</p>'' [(''title'', Str ''Hi''), (''site'', Str ''X'')]"

declare applyLayout.simps [simp del] render.simps [simp del]

section \<open>Objects and the \<open>merge\<close> package\<close>

lemma map_of_fold_obj_set:
  "map_of (fold (\<lambda>(k, v) r. obj_set k v r) kvs r) = map_of r ++ map_of (rev kvs)"
  by (induction kvs arbitrary: r)
     (auto simp: obj_set_def update_conv' fun_eq_iff map_add_def split: option.splits)

lemma map_of_rev_distinct: "distinct (map fst xs) \<Longrightarrow> map_of (rev xs) = map_of xs"
  by (induction xs) (force simp: fun_eq_iff map_add_def split: option.splits)+

lemma keys_fold_obj_set:
  "fst ` set (fold (\<lambda>(k, v) r. obj_set k v r) kvs r) = fst ` set r \<union> fst ` set kvs"
proof (induction kvs arbitrary: r)
  case Nil
  show ?case by simp
next
  case (Cons x kvs)
  obtain k v where x: "x = (k, v)" by (cases x)
  have "fst ` set (obj_set k v r) = {k} \<union> fst ` set r"
    by (simp add: obj_set_def dom_update)
  then show ?case by (auto simp: x Cons.IH)
qed

lemma distinct_fold_obj_set:
  "distinct (map fst r) \<Longrightarrow> distinct (map fst (fold (\<lambda>(k, v) r. obj_set k v r) kvs r))"
  by (induction kvs arbitrary: r) (auto simp: obj_set_def distinct_update)

lemma map_of_merge_item:
  "wf_obj kvs \<Longrightarrow> map_of (merge_item (Obj kvs) r) = map_of r ++ map_of kvs"
  by (simp add: merge_item_def map_of_fold_obj_set map_of_rev_distinct wf_obj_def)

lemma has_key_merge_item:
  "has_key (merge_item (Obj kvs) r) k \<longleftrightarrow> has_key r k \<or> has_key kvs k"
  by (simp add: has_key_def merge_item_def keys_fold_obj_set)

lemma has_key_Nil: "\<not> has_key [] k"
  by (simp add: has_key_def)

lemma wf_obj_Nil: "wf_obj []"
  by (simp add: wf_obj_def)

lemma wf_merge_item: "wf_obj r \<Longrightarrow> wf_obj (merge_item v r)"
  by (cases v) (simp_all add: merge_item_def wf_obj_def distinct_fold_obj_set)

lemma has_key_map_of: "has_key ob k \<longleftrightarrow> map_of ob k \<noteq> None"
  by (simp add: has_key_def map_of_eq_None_iff)

lemma obj_get_merge2:
  assumes "wf_obj a" "wf_obj b"
  shows "obj_get (merge c [Obj a, Obj b]) k = (if has_key b k then obj_get b k else obj_get a k)"
proof -
  have "map_of (merge c [Obj a, Obj b]) = map_of a ++ map_of b"
    using assms
    by (cases c) (simp_all add: merge_def map_of_merge_item map_add_subsumed1)
  then show ?thesis
    by (auto simp: obj_get_def has_key_map_of map_add_def split: option.splits)
qed

lemma has_key_merge2:
  "has_key (merge c [Obj a, Obj b]) k \<longleftrightarrow> has_key a k \<or> has_key b k"
  by (cases c) (auto simp: merge_def has_key_merge_item has_key_Nil)

lemma wf_merge2: "wf_obj a \<Longrightarrow> wf_obj (merge c [Obj a, v])"
  by (cases c) (simp_all add: merge_def wf_merge_item wf_obj_Nil)

lemma obj_get_merge_nonobj:
  assumes "wf_obj a" "\<forall>ob. v \<noteq> Obj ob"
  shows "obj_get (merge True [Obj a, v]) k = obj_get a k"
proof -
  have "merge_item v r = r" for r using assms(2) by (cases v) (simp_all add: merge_item_def)
  then have "map_of (merge True [Obj a, v]) = map_of a"
    using assms(1) by (simp add: merge_def map_of_merge_item)
  then show ?thesis by (simp add: obj_get_def)
qed

lemma obj_get_obj_set: "obj_get (obj_set k v ob) k' = (if k' = k then v else obj_get ob k')"
  by (simp add: obj_get_def obj_set_def update_conv')

lemma has_key_obj_set: "has_key (obj_set k v ob) k' \<longleftrightarrow> k' = k \<or> has_key ob k'"
  by (auto simp: has_key_def obj_set_def dom_update)

lemma wf_obj_set: "wf_obj ob \<Longrightarrow> wf_obj (obj_set k v ob)"
  by (simp add: wf_obj_def obj_set_def distinct_update)

section \<open>The Data Store\<close>

lemma data_callback_merges:
  assumes "length A \<le> 1 \<or> substr_0_60 a \<noteq> None"
  shows "t_data (data_callback a (None, Obj A) st) = merge False [Obj (t_data st), Obj A]"
  using assms
  by (auto simp: data_callback_def merge_into_data_def debug_def split: option.splits)

text \<open>
  Claim C3, as the code has it.  Let two sources be added in the order \<open>a\<close>, \<open>b\<close>, decoding
  to the mappings \<open>A\<close> and \<open>B\<close>, each one a string argument or a mapping of at most one
  key.  Then the store holds exactly the keys it had and those of \<open>A\<close> and of \<open>B\<close>; a
  key of \<open>B\<close> reads as \<open>B\<close>'s value, a key of \<open>A\<close> alone as \<open>A\<close>'s value, any other key as
  before.  The value of a key of \<open>B\<close> is \<open>B\<close>'s value whatever it is: a nested mapping
  of \<open>B\<close> replaces the nested mapping of \<open>A\<close> under the same key, it is not merged
  into it.
\<close>

theorem data_later_source_wins:
  assumes "data_parse E a = [(None, Obj A)]" and "data_parse E b = [(None, Obj B)]"
    and "wf_obj (t_data st)" and "wf_obj A" and "wf_obj B"
    and "length A \<le> 1 \<or> substr_0_60 a \<noteq> None"
    and "length B \<le> 1 \<or> substr_0_60 b \<noteq> None"
  shows "(has_key (t_data (data_add E [a, b] st)) k
            \<longleftrightarrow> has_key (t_data st) k \<or> has_key A k \<or> has_key B k)
       \<and> obj_get (t_data (data_add E [a, b] st)) k =
           (if has_key B k then obj_get B k
            else if has_key A k then obj_get A k
            else obj_get (t_data st) k)"
proof -
  let ?s1 = "data_callback a (None, Obj A) st"
  have d1: "t_data ?s1 = merge False [Obj (t_data st), Obj A]"
    using assms(6) by (rule data_callback_merges)
  have d2: "t_data (data_callback b (None, Obj B) ?s1) = merge False [Obj (t_data ?s1), Obj B]"
    using assms(7) by (rule data_callback_merges)
  have all: "data_add E [a, b] st = data_callback b (None, Obj B) ?s1"
    by (simp add: data_add_def data_argument_def assms(1,2))
  have wf1: "wf_obj (merge False [Obj (t_data st), Obj A])"
    using assms(3) by (rule wf_merge2)
  show ?thesis
    unfolding all d2 d1
    by (simp add: has_key_merge2 obj_get_merge2 [OF wf1 assms(5)]
          obj_get_merge2 [OF assms(3,4)])
qed

theorem data_later_source_wins_witness:
  "get_in (Obj (t_data (data_add site [Str ''first.yaml'', Str ''second.yaml''] taft0))) [''title'']
      = Str ''Override''
   \<and> get_in (Obj (t_data (data_add site [Str ''first.yaml'', Str ''second.yaml''] taft0))) [''site'']
      = Str ''X''
   \<and> get_in (Obj (t_data (data_add site [Str ''first.yaml'', Str ''second.yaml''] taft0))) [''nav'']
      = Obj [(''about'', Str ''/about'')]"
proof -
  let ?A = "[(''site'', Str ''X''), (''title'', Str ''Default''), (''nav'', Obj [(''home'', Str ''/'')])]"
  let ?B = "[(''title'', Str ''Override''), (''nav'', Obj [(''about'', Str ''/about'')])]"
  have a: "data_parse site (Str ''first.yaml'') = [(None, Obj ?A)]"
    by (simp add: site_def site_parse_def)
  have b: "data_parse site (Str ''second.yaml'') = [(None, Obj ?B)]"
    by (simp add: site_def site_parse_def)
  have w: "wf_obj (t_data taft0)" "wf_obj ?A" "wf_obj ?B"
    by (simp_all add: wf_obj_def taft0_def)
  have s: "length ?A \<le> 1 \<or> substr_0_60 (Str ''first.yaml'') \<noteq> None"
    "length ?B \<le> 1 \<or> substr_0_60 (Str ''second.yaml'') \<noteq> None"
    by simp_all
  note t = data_later_source_wins [OF a b w s]
  show ?thesis
    using t [of "''title''"] t [of "''site''"] t [of "''nav''"]
    by (simp add: has_key_def obj_get_def)
qed

text \<open>
  Against C3 as stated: \<open>data({nav: {home: '/'}}, {nav: {about: '/about'}})\<close>.  After the
  first source \<open>nav.home\<close> is there; after the second, whose \<open>nav\<close> has the key \<open>about\<close>
  only, \<open>nav.home\<close> is gone.
\<close>

theorem data_nested_counterexample:
  "get_in (Obj (t_data (data_add site [Obj [(''nav'', Obj [(''home'', Str ''/'')])]] taft0)))
     [''nav'', ''home''] = Str ''/''
   \<and> get_in (Obj (t_data (data_add site
                 [Obj [(''nav'', Obj [(''home'', Str ''/'')])],
                  Obj [(''nav'', Obj [(''about'', Str ''/about'')])]] taft0)))
        [''nav'', ''home''] = Undefined
   \<and> get_in (Obj (t_data (data_add site
                 [Obj [(''nav'', Obj [(''home'', Str ''/'')])],
                  Obj [(''nav'', Obj [(''about'', Str ''/about'')])]] taft0)))
        [''nav'', ''about''] = Str ''/about''"
  by code_simp

text \<open>
  A non-string argument that decodes to two keys or more is not merged at all: building
  the debug message calls \<open>argument.substr\<close>, which throws inside the \<open>try\<close> block.
\<close>

lemma data_object_argument_not_merged:
  "t_data (data_add site [Obj [(''a'', Num 1), (''b'', Num 2)]] taft0) = []
   \<and> console (data_add site [Obj [(''a'', Num 1), (''b'', Num 2)]] taft0) = [''error reading '']"
  by code_simp

section \<open>The render closure\<close>

lemma wf_assign_layout:
  "wf_obj context \<Longrightarrow> wf_obj (fst (assign_layout file isLayout context st))"
  by (auto simp: assign_layout_def wf_obj_set split: option.splits)

lemma t_data_assign_layout:
  "t_data (snd (assign_layout file isLayout context st)) = t_data st"
  by (auto simp: assign_layout_def debug_def split: option.splits)

lemma createTemplate_data:
  assumes "createTemplate E file isLayout st = (Inr (Some t), st')"
    and "gm_read E file = Inr (fm, text)"
  shows "tpl_data t = merge True [Obj (t_data st), Obj (fst (assign_layout file isLayout fm st))]"
  using assms
  by (auto simp: createTemplate_def Let_def split: if_splits prod.splits)
     (metis snd_conv t_data_assign_layout)

lemma createTemplate_isLayout:
  "createTemplate E f l st = (Inr (Some t), st') \<Longrightarrow> tpl_isLayout t = l \<and> tpl_file t = f"
  by (auto simp: createTemplate_def Let_def split: sum.splits if_splits prod.splits)

text \<open>
  Claim C2.  For a template compiled from a file with front matter \<open>fm\<close>, the base data
  \<open>tpl_data t\<close> is the front matter (after the layout assignment) merged over the global
  store: a key of the front matter reads as the front matter's value, any other key as the
  store's.  In the context that line 211 of the closure computes from the base data and a
  call-time mapping \<open>p\<close>: with \<open>preferGlobal\<close> true a key of the base data reads as the
  base data's value and any other key as \<open>p\<close>'s; with \<open>preferGlobal\<close> false a key of \<open>p\<close>
  reads as \<open>p\<close>'s value and any other key as the base data's; without call-time data the
  context reads as the base data; either way the keys of the context are the keys of the
  two sides together.  The closure \<open>render\<close> uses that context: \<open>M\<close>, the merged context
  after the own-layout check, agrees with the merge on every key other than \<open>layout\<close>
  and has no other keys; the template is rendered against \<open>M\<close>; the Content handed to
  \<open>_applyLayout\<close> has \<open>M\<close> as its data; and when \<open>M\<close> names no layout, the closure
  returns the rendered text with \<open>M\<close> as its data.
\<close>

theorem render_merge_precedence:
  assumes "createTemplate E file isLayout st = (Inr (Some t), st')"
    and "gm_read E file = Inr (fm, text)"
    and "wf_obj (t_data st)" and "wf_obj fm" and "wf_obj p"
    and "M = clear_own_layout E (tpl_file t) (tplData_merge g (tpl_data t) (Obj p))"
  shows "obj_get (tpl_data t) k =
           (if has_key (fst (assign_layout file isLayout fm st)) k
            then obj_get (fst (assign_layout file isLayout fm st)) k
            else obj_get (t_data st) k)
       \<and> obj_get (tplData_merge True (tpl_data t) (Obj p)) k =
           (if has_key (tpl_data t) k then obj_get (tpl_data t) k else obj_get p k)
       \<and> obj_get (tplData_merge False (tpl_data t) (Obj p)) k =
           (if has_key p k then obj_get p k else obj_get (tpl_data t) k)
       \<and> obj_get (tplData_merge False (tpl_data t) Undefined) k = obj_get (tpl_data t) k
       \<and> (has_key (tplData_merge g (tpl_data t) (Obj p)) k \<longleftrightarrow> has_key (tpl_data t) k \<or> has_key p k)
       \<and> (k \<noteq> ''layout'' \<longrightarrow>
            obj_get (clear_own_layout E (tpl_file t) (tplData_merge g (tpl_data t) (Obj p))) k
              = obj_get (tplData_merge g (tpl_data t) (Obj p)) k)
       \<and> (k \<noteq> ''layout'' \<longrightarrow>
            obj_get M k =
              (if g then (if has_key (tpl_data t) k then obj_get (tpl_data t) k else obj_get p k)
               else (if has_key p k then obj_get p k else obj_get (tpl_data t) k)))
       \<and> (has_key M k \<longleftrightarrow> k = ''layout'' \<and> has_key M ''layout'' \<or> has_key (tpl_data t) k \<or> has_key p k)
       \<and> render E fuel t (Obj p) g s0 =
           (case hb_render E (hb_partials s0) (tpl_page t) M of
              Inl e \<Rightarrow> (Threw e, s0)
            | Inr s \<Rightarrow>
                applyLayout E fuel (obj_get M ''layout'') \<lparr>body = s, data = M, source = None\<rparr>
                  isLayout s0)
       \<and> (\<not> truthy (obj_get M ''layout'') \<longrightarrow>
            render E fuel t (Obj p) g s0 =
              (case hb_render E (hb_partials s0) (tpl_page t) M of
                 Inl e \<Rightarrow> (Threw e, s0)
               | Inr s \<Rightarrow> (Ret \<lparr>body = s, data = M, source = None\<rparr>, s0)))"
proof -
  let ?fm = "fst (assign_layout file isLayout fm st)"
  let ?T = "tplData_merge g (tpl_data t) (Obj p)"
  have d: "tpl_data t = merge True [Obj (t_data st), Obj ?fm]"
    using assms(1,2) by (rule createTemplate_data)
  have wfm: "wf_obj ?fm" using assms(4) by (rule wf_assign_layout)
  have wd: "wf_obj (tpl_data t)" unfolding d using assms(3) by (rule wf_merge2)
  have il: "tpl_isLayout t = isLayout" using createTemplate_isLayout [OF assms(1)] by simp
  have 1: "obj_get (tpl_data t) k = (if has_key ?fm k then obj_get ?fm k else obj_get (t_data st) k)"
    unfolding d using assms(3) wfm by (rule obj_get_merge2)
  have 2: "obj_get (tplData_merge True (tpl_data t) (Obj p)) k =
           (if has_key (tpl_data t) k then obj_get (tpl_data t) k else obj_get p k)"
    by (simp add: tplData_merge_def obj_get_merge2 [OF assms(5) wd])
  have 3: "obj_get (tplData_merge False (tpl_data t) (Obj p)) k =
           (if has_key p k then obj_get p k else obj_get (tpl_data t) k)"
    by (simp add: tplData_merge_def obj_get_merge2 [OF wd assms(5)])
  have 4: "obj_get (tplData_merge False (tpl_data t) Undefined) k = obj_get (tpl_data t) k"
    by (simp add: tplData_merge_def obj_get_merge_nonobj [OF wd])
  have 5: "has_key ?T k \<longleftrightarrow> has_key (tpl_data t) k \<or> has_key p k"
    by (cases g) (auto simp: tplData_merge_def has_key_merge2)
  have 6: "k \<noteq> ''layout'' \<longrightarrow> obj_get (clear_own_layout E (tpl_file t) ?T) k = obj_get ?T k"
    by (simp add: clear_own_layout_def obj_get_obj_set)
  have 7: "k \<noteq> ''layout'' \<longrightarrow>
            obj_get M k =
              (if g then (if has_key (tpl_data t) k then obj_get (tpl_data t) k else obj_get p k)
               else (if has_key p k then obj_get p k else obj_get (tpl_data t) k))"
    using 2 3 6 by (cases g) (simp_all add: assms(6))
  have 8: "has_key M k \<longleftrightarrow> k = ''layout'' \<and> has_key M ''layout'' \<or> has_key (tpl_data t) k \<or> has_key p k"
    using 5 by (auto simp: assms(6) clear_own_layout_def has_key_obj_set)
  have 9: "render E fuel t (Obj p) g s0 =
           (case hb_render E (hb_partials s0) (tpl_page t) M of
              Inl e \<Rightarrow> (Threw e, s0)
            | Inr s \<Rightarrow>
                applyLayout E fuel (obj_get M ''layout'') \<lparr>body = s, data = M, source = None\<rparr>
                  isLayout s0)"
    by (auto simp: render.simps Let_def assms(6) [symmetric] il new_Content_def split: sum.splits)
  have 10: "\<not> truthy (obj_get M ''layout'') \<longrightarrow>
            render E fuel t (Obj p) g s0 =
              (case hb_render E (hb_partials s0) (tpl_page t) M of
                 Inl e \<Rightarrow> (Threw e, s0)
               | Inr s \<Rightarrow> (Ret \<lparr>body = s, data = M, source = None\<rparr>, s0))"
    unfolding 9 by (simp add: applyLayout.simps split: sum.splits)
  from 1 2 3 4 5 6 7 8 9 10 show ?thesis by blast
qed


theorem render_merge_precedence_witness:
  "fst (render site 0
          \<lparr>tpl_file = ''/site/page.html'', tpl_page = ''<p>{{title}}</p>'',
           tpl_data = [(''site'', Str ''X''), (''title'', Str ''Hi''),
                       (''nav'', Obj [(''home'', Str ''/'')])],
           tpl_isLayout = False\<rparr>
          (Obj [(''title'', Str ''Call''), (''extra'', Num 1)]) True site_taft)
     = Ret \<lparr>body = ''<p>Hi</p>'',
            data = [(''title'', Str ''Hi''), (''extra'', Num 1), (''site'', Str ''X''),
                    (''nav'', Obj [(''home'', Str ''/'')])],
            source = None\<rparr>
   \<and> fst (render site 0
          \<lparr>tpl_file = ''/site/page.html'', tpl_page = ''<p>{{title}}</p>'',
           tpl_data = [(''site'', Str ''X''), (''title'', Str ''Hi''),
                       (''nav'', Obj [(''home'', Str ''/'')])],
           tpl_isLayout = False\<rparr>
          (Obj [(''title'', Str ''Call''), (''extra'', Num 1)]) False site_taft)
     = Ret \<lparr>body = ''<p>Call</p>'',
            data = [(''site'', Str ''X''), (''title'', Str ''Call''),
                    (''nav'', Obj [(''home'', Str ''/'')]), (''extra'', Num 1)],
            source = None\<rparr>
   \<and> obj_get (tplData_merge True
              [(''site'', Str ''X''), (''title'', Str ''Hi''), (''nav'', Obj [(''home'', Str ''/'')])]
              (Obj [(''title'', Str ''Call''), (''extra'', Num 1)])) ''title'' = Str ''Hi''
   \<and> obj_get (tplData_merge False
              [(''site'', Str ''X''), (''title'', Str ''Hi''), (''nav'', Obj [(''home'', Str ''/'')])]
              (Obj [(''title'', Str ''Call''), (''extra'', Num 1)])) ''title'' = Str ''Call''
   \<and> obj_get (tplData_merge True
              [(''site'', Str ''X''), (''title'', Str ''Hi''), (''nav'', Obj [(''home'', Str ''/'')])]
              (Obj [(''title'', Str ''Call''), (''extra'', Num 1)])) ''extra'' = Num 1
   \<and> obj_get (tplData_merge False
              [(''site'', Str ''X''), (''title'', Str ''Hi''), (''nav'', Obj [(''home'', Str ''/'')])]
              (Obj [(''title'', Str ''Call''), (''extra'', Num 1)])) ''site'' = Str ''X''"
proof -
  let ?f = "''/site/page.html''"
  let ?fm = "[(''title'', Str ''Hi'')]"
  let ?p = "[(''title'', Str ''Call''), (''extra'', Num 1)]"
  let ?t = "\<lparr>tpl_file = ?f, tpl_page = ''<p>{{title}}</p>'',
             tpl_data = [(''site'', Str ''X''), (''title'', Str ''Hi''),
                         (''nav'', Obj [(''home'', Str ''/'')])],
             tpl_isLayout = False\<rparr>"
  let ?MT = "[(''title'', Str ''Hi''), (''extra'', Num 1), (''site'', Str ''X''),
              (''nav'', Obj [(''home'', Str ''/'')])]"
  let ?MF = "[(''site'', Str ''X''), (''title'', Str ''Call''),
              (''nav'', Obj [(''home'', Str ''/'')]), (''extra'', Num 1)]"
  let ?ct = "createTemplate site ?f False site_taft"
  have "fst ?ct = Inr (Some ?t)" by code_simp
  then have ct: "?ct = (Inr (Some ?t), snd ?ct)" by (metis prod.collapse)
  have gm: "gm_read site ?f = Inr (?fm, CHR 0x0A # ''<p>{{title}}</p>'')" by code_simp
  have w: "wf_obj (t_data site_taft)" "wf_obj ?fm" "wf_obj ?p" by code_simp+
  have mt: "?MT = clear_own_layout site (tpl_file ?t) (tplData_merge True (tpl_data ?t) (Obj ?p))"
    and mf: "?MF = clear_own_layout site (tpl_file ?t) (tplData_merge False (tpl_data ?t) (Obj ?p))"
    by code_simp+
  note tt = render_merge_precedence [OF ct gm w mt]
  note tf = render_merge_precedence [OF ct gm w mf]
  have k: "has_key (tpl_data ?t) ''title''" "has_key ?p ''title''"
    "\<not> has_key (tpl_data ?t) ''extra''" "\<not> has_key ?p ''site''"
    "obj_get (tpl_data ?t) ''title'' = Str ''Hi''" "obj_get ?p ''title'' = Str ''Call''"
    "obj_get ?p ''extra'' = Num 1" "obj_get (tpl_data ?t) ''site'' = Str ''X''"
    by code_simp+
  have l: "\<not> truthy (obj_get ?MT ''layout'')" "\<not> truthy (obj_get ?MF ''layout'')"
    by code_simp+
  have r: "hb_render site (hb_partials site_taft) (tpl_page ?t) ?MT = Inr ''<p>Hi</p>''"
    "hb_render site (hb_partials site_taft) (tpl_page ?t) ?MF = Inr ''<p>Call</p>''"
    by code_simp+
  have "render site 0 ?t (Obj ?p) True site_taft
          = (case hb_render site (hb_partials site_taft) (tpl_page ?t) ?MT of
               Inl e \<Rightarrow> (Threw e, site_taft)
             | Inr s \<Rightarrow> (Ret \<lparr>body = s, data = ?MT, source = None\<rparr>, site_taft))"
    using tt [of "''title''" 0 site_taft] l(1) by blast
  then have rt: "render site 0 ?t (Obj ?p) True site_taft
              = (Ret \<lparr>body = ''<p>Hi</p>'', data = ?MT, source = None\<rparr>, site_taft)"
    by (simp only: r sum.case)
  have "render site 0 ?t (Obj ?p) False site_taft
          = (case hb_render site (hb_partials site_taft) (tpl_page ?t) ?MF of
               Inl e \<Rightarrow> (Threw e, site_taft)
             | Inr s \<Rightarrow> (Ret \<lparr>body = s, data = ?MF, source = None\<rparr>, site_taft))"
    using tf [of "''title''" 0 site_taft] l(2) by blast
  then have rf: "render site 0 ?t (Obj ?p) False site_taft
              = (Ret \<lparr>body = ''<p>Call</p>'', data = ?MF, source = None\<rparr>, site_taft)"
    by (simp only: r sum.case)
  have o1: "obj_get (tplData_merge True (tpl_data ?t) (Obj ?p)) ''title'' =
           (if has_key (tpl_data ?t) ''title'' then obj_get (tpl_data ?t) ''title''
            else obj_get ?p ''title'')"
    and o2: "obj_get (tplData_merge False (tpl_data ?t) (Obj ?p)) ''title'' =
           (if has_key ?p ''title'' then obj_get ?p ''title'' else obj_get (tpl_data ?t) ''title'')"
    using tt [of "''title''" 0 site_taft] by blast+
  have o3: "obj_get (tplData_merge True (tpl_data ?t) (Obj ?p)) ''extra'' =
           (if has_key (tpl_data ?t) ''extra'' then obj_get (tpl_data ?t) ''extra''
            else obj_get ?p ''extra'')"
    using tt [of "''extra''" 0 site_taft] by blast
  have o4: "obj_get (tplData_merge False (tpl_data ?t) (Obj ?p)) ''site'' =
           (if has_key ?p ''site'' then obj_get ?p ''site'' else obj_get (tpl_data ?t) ''site'')"
    using tt [of "''site''" 0 site_taft] by blast
  show ?thesis
    using o1 o2 o3 o4 k rt rf by simp
qed

text \<open>
  The own-layout check of lines 214-215, for the two forms it compares with.  When the
  \<open>layout\<close> of the merged context is the file's own basename, with or without its
  extension, the context that is rendered has \<open>layout\<close> set to \<open>undefined\<close>, and the
  closure returns the file's own rendered body with that context (or throws the
  renderer's error): \<open>_applyLayout\<close> is entered with no layout, so for every fuel no
  layout is looked up, no partial is registered and the instance is left as it was.
\<close>

theorem own_layout_cleared:
  assumes "obj_get (tplData_merge g (tpl_data t) pageData) ''layout'' = Str (p_basename E (tpl_file t) None)
         \<or> obj_get (tplData_merge g (tpl_data t) pageData) ''layout'' = Str (stripExtname E (tpl_file t))"
  shows "obj_get (clear_own_layout E (tpl_file t) (tplData_merge g (tpl_data t) pageData)) ''layout''
           = Undefined
       \<and> render E fuel t pageData g st =
           (case hb_render E (hb_partials st) (tpl_page t)
                   (obj_set ''layout'' Undefined (tplData_merge g (tpl_data t) pageData)) of
              Inl e \<Rightarrow> (Threw e, st)
            | Inr s \<Rightarrow>
                (Ret (new_Content s
                        (obj_set ''layout'' Undefined (tplData_merge g (tpl_data t) pageData))), st))"
proof -
  let ?M = "tplData_merge g (tpl_data t) pageData"
  have c: "clear_own_layout E (tpl_file t) ?M = obj_set ''layout'' Undefined ?M"
    using assms by (auto simp: clear_own_layout_def)
  have u: "obj_get (obj_set ''layout'' Undefined ?M) ''layout'' = Undefined"
    by (simp add: obj_get_obj_set)
  have a: "applyLayout E fuel Undefined c0 l st = (Ret c0, st)" for c0 l
    by (simp add: applyLayout.simps)
  show ?thesis
    unfolding c
    by (simp add: u render.simps c Let_def a split: sum.splits)
qed

theorem own_layout_cleared_witness:
  "render site 0
     \<lparr>tpl_file = ''/site/self.html'', tpl_page = ''me'',
      tpl_data = [(''layout'', Str ''self'')], tpl_isLayout = False\<rparr>
     Undefined False taft0
   = (Ret \<lparr>body = ''me'', data = [(''layout'', Undefined)], source = None\<rparr>, taft0)"
proof -
  let ?t = "\<lparr>tpl_file = ''/site/self.html'', tpl_page = ''me'',
      tpl_data = [(''layout'', Str ''self'')], tpl_isLayout = False\<rparr>"
  have h: "obj_get (tplData_merge False (tpl_data ?t) Undefined) ''layout''
             = Str (p_basename site (tpl_file ?t) None)
         \<or> obj_get (tplData_merge False (tpl_data ?t) Undefined) ''layout''
             = Str (stripExtname site (tpl_file ?t))"
    by code_simp
  have r: "hb_render site (hb_partials taft0) (tpl_page ?t)
             (obj_set ''layout'' Undefined (tplData_merge False (tpl_data ?t) Undefined)) = Inr ''me''"
    by code_simp
  have m: "obj_set ''layout'' Undefined (tplData_merge False [(''layout'', Str ''self'')] Undefined)
            = [(''layout'', Undefined)]"
    by code_simp
  show ?thesis
    using own_layout_cleared [OF h, of 0 taft0] r
    by (simp add: m new_Content_def)
qed

section \<open>Layout lookup and application\<close>

text \<open>
  Claim C9.  For a string name that, once its extension is stripped, is not a key of
  \<open>_layouts\<close>: \<open>_getLayout\<close> returns \<open>undefined\<close> without throwing, after writing
  \<open>could not find layout: name\<close> to the console; and \<open>_applyLayout\<close> with that name
  returns the content it was given, for every fuel.
\<close>

theorem missing_layout_nonfatal:
  assumes "\<not> layouts_has st (if p_extname E s \<noteq> [] then stripExtname E s else s)"
  shows "getLayout E (Str s) st =
           (Inr None,
            err (''could not find layout: '' @ (if p_extname E s \<noteq> [] then stripExtname E s else s)) st)
       \<and> fst (applyLayout E fuel (Str s) c isLayout st) = Ret c"
proof -
  let ?n = "if p_extname E s \<noteq> [] then stripExtname E s else s"
  have "map_of (t_layouts st) ?n = None"
    using assms by (simp add: layouts_has_def map_of_eq_None_iff)
  then have g: "getLayout E (Str s) st = (Inr None, err (''could not find layout: '' @ ?n) st)"
    by (simp add: getLayout_def Let_def)
  have "fst (applyLayout E fuel (Str s) c isLayout st) = Ret c"
    by (simp add: applyLayout.simps g catch_finally_def)
  with g show ?thesis by simp
qed

theorem missing_layout_nonfatal_witness:
  "fst (getLayout site (Str ''nowhere.html'') site_taft) = Inr None
   \<and> console (snd (getLayout site (Str ''nowhere.html'') site_taft))
       = [''could not find layout: nowhere'']
   \<and> fst (applyLayout site 0 (Str ''nowhere.html'') page_content False site_taft) = Ret page_content"
proof -
  have n: "(if p_extname site ''nowhere.html'' \<noteq> [] then stripExtname site ''nowhere.html''
            else ''nowhere.html'') = ''nowhere''"
    by code_simp
  have h: "\<not> layouts_has site_taft
               (if p_extname site ''nowhere.html'' \<noteq> [] then stripExtname site ''nowhere.html''
                else ''nowhere.html'')"
    by code_simp
  have c: "console site_taft = []" by code_simp
  show ?thesis
    using missing_layout_nonfatal [OF h, of 0 page_content False]
    by (simp add: n err_def c)
qed

text \<open>
  Claim C1.  Whenever \<open>_applyLayout\<close> is called with a truthy layout and comes back, by
  returning or by throwing, the partial \<open>body\<close> is not registered in the state it leaves:
  the \<open>finally\<close> clause has run.  This covers the call that resolves the layout and
  registers the content as \<open>body\<close>, whether the layout's render succeeds or throws.
\<close>

theorem applyLayout_unregisters_body:
  assumes "truthy layout"
    and "applyLayout E fuel layout c isLayout st = (r, st')"
    and "r \<noteq> OutOfFuel"
  shows "hb_partials st' ''body'' = None"
proof -
  obtain r0 st0 where try_block:
    "applyLayout E fuel layout c isLayout st = catch_finally layout (r0, st0)"
    using assms(1) by (cases "(case getLayout E layout st of
             (Inl e, st1) \<Rightarrow> (Threw e, st1)
           | (Inr None, st1) \<Rightarrow> (Ret c, st1)
           | (Inr (Some layout_template), st1) \<Rightarrow>
               (let st2 = registerPartial ''body'' (content_toString c) st1;
                    c1 = set_page isLayout c
                in case fuel of
                     0 \<Rightarrow> (OutOfFuel, st2)
                   | Suc n \<Rightarrow> render E n layout_template (Obj (data c1)) True st2))")
       (simp add: applyLayout.simps)
  with assms(2) have "catch_finally layout (r0, st0) = (r, st')" by simp
  with assms(3) show ?thesis
    by (cases r0) (auto simp: catch_finally_def unregisterPartial_def)
qed

theorem applyLayout_unregisters_body_witness:
  "fst (applyLayout site 2 (Str ''main'') page_content False site_taft)
     = Ret \<lparr>body = ''{{site}}: {{> body}}|<p>Hi</p>'',
            data = [(''title'', Str ''Default''), (''site'', Str ''X''),
                    (''page'', Obj [(''title'', Str ''Hi''), (''site'', Str ''X'')]),
                    (''nav'', Obj [(''home'', Str ''/'')])],
            source = None\<rparr>
   \<and> hb_partials (snd (applyLayout site 2 (Str ''main'') page_content False site_taft)) ''body'' = None
   \<and> fst (applyLayout site 2 (Str ''broken'') page_content False site_taft)
     = Threw (JsError None ''unable to render layout broken (Parse error on line 1)'')
   \<and> hb_partials (snd (applyLayout site 2 (Str ''broken'') page_content False site_taft)) ''body'' = None"
proof -
  let ?ok = "applyLayout site 2 (Str ''main'') page_content False site_taft"
  let ?bad = "applyLayout site 2 (Str ''broken'') page_content False site_taft"
  have ok: "fst ?ok
     = Ret \<lparr>body = ''{{site}}: {{> body}}|<p>Hi</p>'',
            data = [(''title'', Str ''Default''), (''site'', Str ''X''),
                    (''page'', Obj [(''title'', Str ''Hi''), (''site'', Str ''X'')]),
                    (''nav'', Obj [(''home'', Str ''/'')])],
            source = None\<rparr>"
    by code_simp
  have bad: "fst ?bad = Threw (JsError None ''unable to render layout broken (Parse error on line 1)'')"
    by code_simp
  have t: "truthy (Str ''main'')" "truthy (Str ''broken'')" by simp_all
  have "?ok = (fst ?ok, snd ?ok)" by (rule prod.collapse [symmetric])
  moreover have "fst ?ok \<noteq> OutOfFuel" by (simp add: ok)
  ultimately have u1: "hb_partials (snd ?ok) ''body'' = None"
    by (rule applyLayout_unregisters_body [OF t(1)])
  have "?bad = (fst ?bad, snd ?bad)" by (rule prod.collapse [symmetric])
  moreover have "fst ?bad \<noteq> OutOfFuel" by (simp add: bad)
  ultimately have u2: "hb_partials (snd ?bad) ''body'' = None"
    by (rule applyLayout_unregisters_body [OF t(2)])
  show ?thesis using ok bad u1 u2 by simp
qed

subsection \<open>Fuel\<close>

text \<open>
  An outcome other than \<open>OutOfFuel\<close> does not depend on the fuel: more fuel gives the
  same outcome and the same state.
\<close>

lemma catch_finally_OutOfFuel:
  "fst (catch_finally layout (r0, s0)) = OutOfFuel \<longleftrightarrow> r0 = OutOfFuel"
  by (cases r0) (simp_all add: catch_finally_def)

lemma fuel_mono:
  "applyLayout E n layout c isLayout st = (r, st') \<Longrightarrow> r \<noteq> OutOfFuel
     \<Longrightarrow> applyLayout E (n + k) layout c isLayout st = (r, st')"
  "render E n t pageData preferGlobal st = (r, st') \<Longrightarrow> r \<noteq> OutOfFuel
     \<Longrightarrow> render E (n + k) t pageData preferGlobal st = (r, st')"
proof (induction E n layout c isLayout st and E n t pageData preferGlobal st
       arbitrary: r st' and r st' rule: applyLayout_render.induct)
  case (1 E fuel layout c isLayout st)
  show ?case
  proof (cases "truthy layout")
    case False
    with "1.prems" show ?thesis by (simp add: applyLayout.simps)
  next
    case True
    then have nn: "\<not> \<not> truthy layout" by simp
    obtain g st1 where g: "getLayout E layout st = (g, st1)" by (cases "getLayout E layout st")
    show ?thesis
    proof (cases g)
      case (Inl e)
      with "1.prems" True show ?thesis by (simp add: applyLayout.simps g)
    next
      case (Inr ot)
      show ?thesis
      proof (cases ot)
        case None
        with "1.prems" True show ?thesis by (simp add: applyLayout.simps g Inr)
      next
        case (Some lt)
        let ?s2 = "registerPartial ''body'' (content_toString c) st1"
        let ?d = "Obj (data (set_page isLayout c))"
        show ?thesis
        proof (cases fuel)
          case 0
          with "1.prems" True show ?thesis
            by (simp add: applyLayout.simps g Inr Some catch_finally_def)
        next
          case (Suc m)
          obtain r0 s0 where r0: "render E m lt ?d True ?s2 = (r0, s0)"
            by (cases "render E m lt ?d True ?s2")
          have cf: "catch_finally layout (r0, s0) = (r, st')"
            using "1.prems"(1) True by (simp add: applyLayout.simps g Inr Some Suc r0)
          then have "r0 \<noteq> OutOfFuel"
            using "1.prems"(2) catch_finally_OutOfFuel [of layout r0 s0] by auto
          then have "render E (m + k) lt ?d True ?s2 = (r0, s0)"
            using "1.IH" [OF nn g [symmetric] Inr Some refl refl Suc r0] by simp
          then show ?thesis
            using True cf by (simp add: applyLayout.simps g Inr Some Suc)
        qed
      qed
    qed
  qed
next
  case (2 E fuel t pageData preferGlobal st)
  let ?M = "clear_own_layout E (tpl_file t) (tplData_merge preferGlobal (tpl_data t) pageData)"
  show ?case
  proof (cases "hb_render E (hb_partials st) (tpl_page t) ?M")
    case (Inl e)
    with "2.prems" show ?thesis by (simp add: render.simps)
  next
    case (Inr s)
    have "applyLayout E fuel (obj_get ?M ''layout'') (new_Content s ?M) (tpl_isLayout t) st = (r, st')"
      using "2.prems"(1) by (simp add: render.simps Inr Let_def)
    then have "applyLayout E (fuel + k) (obj_get ?M ''layout'') (new_Content s ?M) (tpl_isLayout t) st
                 = (r, st')"
      using "2.IH" [OF refl Inr] "2.prems"(2) by simp
    then show ?thesis by (simp add: render.simps Inr Let_def)
  qed
qed

lemma build_fuel_mono:
  assumes "build E n file d st = (r, st')" and "r \<noteq> OutOfFuel"
  shows "build E (n + k) file d st = (r, st')"
proof -
  obtain c st1 where c: "createTemplate E (p_resolve E file) False st = (c, st1)"
    by (cases "createTemplate E (p_resolve E file) False st")
  show ?thesis
  proof (cases c)
    case (Inl e)
    with assms show ?thesis by (simp add: build_def c)
  next
    case (Inr ot)
    show ?thesis
    proof (cases ot)
      case None
      with assms show ?thesis by (simp add: build_def c Inr)
    next
      case (Some t)
      let ?s = "debug (''building: '' @ file) st1"
      obtain r0 s0 where r0: "render E n t d False ?s = (r0, s0)"
        by (cases "render E n t d False ?s")
      have "r0 \<noteq> OutOfFuel"
        using assms r0 by (auto simp: build_def c Inr Some)
      with r0 have "render E (n + k) t d False ?s = (r0, s0)" by (rule fuel_mono(2))
      with assms r0 show ?thesis by (simp add: build_def c Inr Some)
    qed
  qed
qed

text \<open>
  The end of the fuel does happen.  The own-layout check compares the \<open>layout\<close> value with
  the two basename forms only: the layout \<open>loop\<close>, whose front matter names it as
  \<open>x/loop.html\<close>, is its own layout, and its chain has not ended after six rounds.
\<close>

lemma layout_through_path_not_cleared:
  "fst (build site 6 ''/site/layouts/loop.html'' Undefined
          (layouts_add site [''/site/layouts/loop.html''] taft0)) = OutOfFuel"
  by code_simp

lemma main_hbs_resolves:
  assumes "map_of (t_layouts st) ''main'' = Some (LTemplate main_layout)"
  shows "getLayout site (Str ''main.hbs'') st = (Inr (Some main_layout), st)"
proof -
  have "(if p_extname site ''main.hbs'' \<noteq> [] then stripExtname site ''main.hbs'' else ''main.hbs'')
          = ''main''"
    by code_simp
  then show ?thesis using assms by (simp add: getLayout_def Let_def)
qed

lemma main_hbs_not_cleared:
  assumes "obj_get pd ''layout'' = Str ''main.hbs''" and "wf_obj pd"
  shows "clear_own_layout site (tpl_file main_layout) (tplData_merge True (tpl_data main_layout) (Obj pd))
           = tplData_merge True (tpl_data main_layout) (Obj pd)
       \<and> obj_get (tplData_merge True (tpl_data main_layout) (Obj pd)) ''layout'' = Str ''main.hbs''
       \<and> wf_obj (tplData_merge True (tpl_data main_layout) (Obj pd))"
proof -
  let ?T = "tplData_merge True (tpl_data main_layout) (Obj pd)"
  have wd: "wf_obj (tpl_data main_layout)" and nk: "\<not> has_key (tpl_data main_layout) ''layout''"
    by code_simp+
  have l: "obj_get ?T ''layout'' = Str ''main.hbs''"
    by (simp add: tplData_merge_def obj_get_merge2 [OF assms(2) wd] nk assms(1))
  have w: "wf_obj ?T"
    unfolding tplData_merge_def using assms(2) by (simp add: wf_merge2)
  have b: "p_basename site (tpl_file main_layout) None = ''main.html''"
    "stripExtname site (tpl_file main_layout) = ''main''"
    by code_simp+
  have "clear_own_layout site (tpl_file main_layout) ?T = ?T"
    by (simp add: clear_own_layout_def l b)
  with l w show ?thesis by simp
qed

lemma main_hbs_chain:
  assumes "obj_get (data c) ''layout'' = Str ''main.hbs''" and "wf_obj (data c)"
    and "map_of (t_layouts st) ''main'' = Some (LTemplate main_layout)"
  shows "fst (applyLayout site n (Str ''main.hbs'') c True st) = OutOfFuel"
  using assms
proof (induction n arbitrary: c st)
  case 0
  show ?case
    by (simp add: applyLayout.simps main_hbs_resolves [OF 0(3)] catch_finally_def Let_def)
next
  case (Suc m)
  let ?st2 = "registerPartial ''body'' (content_toString c) st"
  let ?T = "tplData_merge True (tpl_data main_layout) (Obj (data c))"
  note nc = main_hbs_not_cleared [OF Suc.prems(1,2)]
  obtain s where s: "hb_render site (hb_partials ?st2) (tpl_page main_layout) ?T = Inr s"
    by (simp add: site_def site_render_def main_layout_def)
  have l2: "map_of (t_layouts ?st2) ''main'' = Some (LTemplate main_layout)"
    using Suc.prems(3) by (simp add: registerPartial_def)
  have "fst (applyLayout site m (Str ''main.hbs'') (new_Content s ?T) True ?st2) = OutOfFuel"
    by (rule Suc.IH) (simp_all add: new_Content_def nc l2)
  moreover have il: "tpl_isLayout main_layout = True" by (simp add: main_layout_def)
  ultimately have "fst (render site m main_layout (Obj (data c)) True ?st2) = OutOfFuel"
    using nc s by (simp add: render.simps Let_def)
  then have "fst (catch_finally (Str ''main.hbs'')
                    (render site m main_layout (Obj (data c)) True ?st2)) = OutOfFuel"
    by (cases "render site m main_layout (Obj (data c)) True ?st2")
       (simp add: catch_finally_OutOfFuel)
  then show ?case
    by (simp add: applyLayout.simps main_hbs_resolves [OF Suc.prems(3)] set_page_def Let_def)
qed

text \<open>
  Claim C8 fails on the code.  \<open>_getLayout\<close> strips the directory and whatever extension
  a layout name has, while the own-layout check compares the \<open>layout\<close> value with the two
  strings \<open>path.basename(file)\<close> and \<open>stripExtname(file)\<close>.  The page \<open>/site/ext.html\<close>
  names its layout \<open>main.hbs\<close>; the registered layout file is \<open>main.html\<close>.  The name
  resolves to that file; in the context the layout is rendered with, \<open>layout\<close> is still
  \<open>main.hbs\<close>, which is neither \<open>main.html\<close> nor \<open>main\<close>, so it is not cleared and the
  layout is applied to its own output, again and again: for every fuel, \<open>build\<close> of the
  page runs out of fuel.
\<close>

theorem own_layout_check_misses_extension:
  "fst (getLayout site (Str ''main.hbs'') site_taft) = Inr (Some main_layout)
   \<and> tpl_file main_layout = ''/site/layouts/main.html''
   \<and> obj_get (clear_own_layout site (tpl_file main_layout)
                (tplData_merge True (tpl_data main_layout)
                   (Obj [(''site'', Str ''X''), (''title'', Str ''Default''),
                         (''nav'', Obj [(''home'', Str ''/'')]),
                         (''layout'', Str ''main.hbs'')]))) ''layout'' = Str ''main.hbs''
   \<and> fst (build site fuel ''/site/ext.html'' Undefined site_taft) = OutOfFuel"
proof -
  have resolves: "fst (getLayout site (Str ''main.hbs'') site_taft) = Inr (Some main_layout)"
    and itself: "tpl_file main_layout = ''/site/layouts/main.html''"
    and kept: "obj_get (clear_own_layout site (tpl_file main_layout)
                (tplData_merge True (tpl_data main_layout)
                   (Obj [(''site'', Str ''X''), (''title'', Str ''Default''),
                         (''nav'', Obj [(''home'', Str ''/'')]),
                         (''layout'', Str ''main.hbs'')]))) ''layout'' = Str ''main.hbs''"
    by code_simp+
  let ?t = "\<lparr>tpl_file = ''/site/ext.html'', tpl_page = ''ext'',
             tpl_data = [(''site'', Str ''X''), (''title'', Str ''Default''),
                         (''nav'', Obj [(''home'', Str ''/'')]), (''layout'', Str ''main.hbs'')],
             tpl_isLayout = False\<rparr>"
  let ?M = "[(''site'', Str ''X''), (''title'', Str ''Default''),
             (''nav'', Obj [(''home'', Str ''/'')]), (''layout'', Str ''main.hbs'')]"
  let ?D = "[(''site'', Str ''X''), (''title'', Str ''Default''),
             (''nav'', Obj [(''home'', Str ''/'')]), (''layout'', Str ''main.hbs''),
             (''page'', Obj ?M)]"
  let ?ct = "createTemplate site (p_resolve site ''/site/ext.html'') False site_taft"
  define s1 where "s1 = snd ?ct"
  define s2 where "s2 = debug (''building: '' @ ''/site/ext.html'') s1"
  define s3 where "s3 = snd (getLayout site (Str ''main.hbs'') s2)"
  define s4 where "s4 = registerPartial ''body'' ''ext'' s3"
  have "fst ?ct = Inr (Some ?t)" by code_simp
  then have ct: "?ct = (Inr (Some ?t), s1)" unfolding s1_def by (metis prod.collapse)
  have M: "clear_own_layout site ''/site/ext.html'' (tplData_merge False ?M Undefined) = ?M"
    by code_simp
  have own: "hb_render site (hb_partials s2) ''ext'' ?M = Inr ''ext''"
    unfolding s2_def s1_def by code_simp
  have "fst (getLayout site (Str ''main.hbs'') s2) = Inr (Some main_layout)"
    unfolding s2_def s1_def by code_simp
  then have gl: "getLayout site (Str ''main.hbs'') s2 = (Inr (Some main_layout), s3)"
    unfolding s3_def by (metis prod.collapse)
  have D: "data (set_page False \<lparr>body = ''ext'', data = ?M, source = None\<rparr>) = ?D" by code_simp
  have pd: "obj_get ?D ''layout'' = Str ''main.hbs''" "wf_obj ?D" by code_simp+
  have reg: "map_of (t_layouts s4) ''main'' = Some (LTemplate main_layout)"
    unfolding s4_def s3_def s2_def s1_def by code_simp
  have chain: "fst (render site m main_layout (Obj ?D) True s4) = OutOfFuel" for m
  proof -
    let ?T = "tplData_merge True (tpl_data main_layout) (Obj ?D)"
    note nc = main_hbs_not_cleared [OF pd]
    obtain s where s: "hb_render site (hb_partials s4) (tpl_page main_layout) ?T = Inr s"
      by (simp add: site_def site_render_def main_layout_def)
    have "fst (applyLayout site m (Str ''main.hbs'') (new_Content s ?T) True s4) = OutOfFuel"
      by (rule main_hbs_chain [OF _ _ reg]) (simp_all add: new_Content_def nc)
    moreover have "tpl_isLayout main_layout = True" by (simp add: main_layout_def)
    ultimately show ?thesis using nc s by (simp add: render.simps Let_def)
  qed
  have first: "fst (applyLayout site fuel (Str ''main.hbs'') (new_Content ''ext'' ?M) False s2)
                 = OutOfFuel"
  proof (cases fuel)
    case 0
    then show ?thesis
      by (simp add: applyLayout.simps gl catch_finally_def Let_def)
  next
    case (Suc m)
    have "fst (catch_finally (Str ''main.hbs'') (render site m main_layout (Obj ?D) True s4))
            = OutOfFuel"
      using chain [of m]
      by (cases "render site m main_layout (Obj ?D) True s4") (simp add: catch_finally_OutOfFuel)
    then show ?thesis
      by (simp add: applyLayout.simps gl Suc Let_def D content_toString_def new_Content_def
            s4_def [symmetric])
  qed
  have il: "obj_get ?M ''layout'' = Str ''main.hbs''" by code_simp
  have r: "fst (render site fuel ?t Undefined False s2) = OutOfFuel"
    using first by (simp add: render.simps Let_def M own il)
  have "fst (build site fuel ''/site/ext.html'' Undefined site_taft) = OutOfFuel"
    using r [unfolded s2_def]
    by (cases "render site fuel ?t Undefined False
                 (debug (''building: '' @ ''/site/ext.html'') s1)")
       (simp add: build_def ct)
  with resolves itself kept show ?thesis by simp
qed

section \<open>\<open>build\<close>\<close>

text \<open>
  Claim C5.  For a file whose front matter has \<open>published\<close> equal to \<open>false\<close> or \<open>0\<close>,
  \<open>_createTemplate\<close> returns \<open>undefined\<close> whether or not it is compiling a layout, and
  \<open>build\<close> of that file returns \<open>undefined\<close>, not a Content, in every state of the
  instance, so also when the file is registered as a layout.
\<close>

theorem unpublished_skipped:
  assumes "gm_read E (p_resolve E file) = Inr (context, text)" and "unpublished context"
  shows "createTemplate E (p_resolve E file) isLayout st = (Inr None, st)
       \<and> build E fuel file d st = (Ret None, debug (''ignoring '' @ file) st)"
proof -
  have "createTemplate E (p_resolve E file) l st = (Inr None, st)" for l
    using assms by (simp add: createTemplate_def)
  then show ?thesis by (simp add: build_def)
qed

theorem unpublished_skipped_witness:
  "fst (createTemplate site ''/site/draft.html'' False site_taft) = Inr None
   \<and> fst (createTemplate site ''/site/layouts/hidden.html'' True site_taft) = Inr None
   \<and> fst (build site 0 ''/site/draft.html'' Undefined site_taft) = Ret None
   \<and> fst (build site 0 ''/site/layouts/hidden.html'' Undefined site_taft) = Ret None"
proof -
  have g1: "gm_read site (p_resolve site ''/site/draft.html'')
              = Inr ([(''published'', JBool False)], ''draft'')"
    and g2: "gm_read site (p_resolve site ''/site/layouts/hidden.html'')
              = Inr ([(''published'', JBool False)], ''hidden'')"
    and u: "unpublished [(''published'', JBool False)]"
    and p: "p_resolve site ''/site/draft.html'' = ''/site/draft.html''"
       "p_resolve site ''/site/layouts/hidden.html'' = ''/site/layouts/hidden.html''"
    by code_simp+
  show ?thesis
    using unpublished_skipped [OF g1 u, of False site_taft 0 Undefined]
      unpublished_skipped [OF g2 u, of True site_taft 0 Undefined]
    by (simp add: p)
qed

text \<open>
  The same check makes \<open>_getLayout\<close> return \<open>undefined\<close> for an unpublished layout: a
  page that names it is returned as it is, without a layout.
\<close>

lemma unpublished_layout_not_applied:
  "fst (applyLayout site 2 (Str ''hidden'') page_content False site_taft) = Ret page_content
   \<and> map_of (t_layouts (snd (applyLayout site 2 (Str ''hidden'') page_content False site_taft)))
       ''hidden'' = Some LUndefined"
  by code_simp

lemma build_catch_not_threw: "fst (build_catch file e st) \<noteq> Threw e'"
  by (simp add: build_catch_def)

text \<open>
  Claim C10.  \<open>build\<close> never throws: its outcome is a return (or, in the model, the
  end of the fuel).  It returns \<open>undefined\<close> for an unpublished file and when reading the
  file fails with code \<open>EISDIR\<close>.  When reading fails with any other error, or when the
  render closure throws an error whose code is not \<open>EISDIR\<close>, it returns a Content with
  an empty body and empty data whose \<open>source\<close> is the file argument, and the only trace
  of the error is the line \<open>error building file: message\<close> on the console.
\<close>

theorem build_never_throws:
  "(\<forall>e. fst (build E fuel file d st) \<noteq> Threw e)
   \<and> (\<forall>context text. gm_read E (p_resolve E file) = Inr (context, text) \<and> unpublished context
        \<longrightarrow> fst (build E fuel file d st) = Ret None)
   \<and> (\<forall>e. gm_read E (p_resolve E file) = Inl e \<and> code e = Some ''EISDIR''
        \<longrightarrow> build E fuel file d st = (Ret None, st))
   \<and> (\<forall>e. gm_read E (p_resolve E file) = Inl e \<and> code e \<noteq> Some ''EISDIR''
        \<longrightarrow> build E fuel file d st =
              (Ret (Some \<lparr>body = [], data = [], source = Some file\<rparr>),
               err (''error building '' @ file @ '': '' @ message e) st))
   \<and> (\<forall>t st1 e st2.
          createTemplate E (p_resolve E file) False st = (Inr (Some t), st1)
          \<and> render E fuel t d False (debug (''building: '' @ file) st1) = (Threw e, st2)
          \<and> code e \<noteq> Some ''EISDIR''
        \<longrightarrow> build E fuel file d st =
              (Ret (Some \<lparr>body = [], data = [], source = Some file\<rparr>),
               err (''error building '' @ file @ '': '' @ message e) st2))"
proof (intro conjI allI impI)
  fix e show "fst (build E fuel file d st) \<noteq> Threw e"
    by (auto simp: build_def build_catch_not_threw split: prod.splits sum.splits option.splits outcome.splits)
next
  fix fm src
  assume "gm_read E (p_resolve E file) = Inr (fm, src) \<and> unpublished fm"
  then show "fst (build E fuel file d st) = Ret None"
    by (simp add: build_def createTemplate_def)
next
  fix e assume "gm_read E (p_resolve E file) = Inl e \<and> code e = Some ''EISDIR''"
  then show "build E fuel file d st = (Ret None, st)"
    by (simp add: build_def createTemplate_def build_catch_def)
next
  fix e assume "gm_read E (p_resolve E file) = Inl e \<and> code e \<noteq> Some ''EISDIR''"
  then show "build E fuel file d st =
              (Ret (Some \<lparr>body = [], data = [], source = Some file\<rparr>),
               err (''error building '' @ file @ '': '' @ message e) st)"
    by (simp add: build_def createTemplate_def build_catch_def empty_Content_def new_Content_def)
next
  fix t st1 e st2
  assume "createTemplate E (p_resolve E file) False st = (Inr (Some t), st1)
          \<and> render E fuel t d False (debug (''building: '' @ file) st1) = (Threw e, st2)
          \<and> code e \<noteq> Some ''EISDIR''"
  then show "build E fuel file d st =
              (Ret (Some \<lparr>body = [], data = [], source = Some file\<rparr>),
               err (''error building '' @ file @ '': '' @ message e) st2)"
    by (simp add: build_def build_catch_def empty_Content_def new_Content_def)
qed

theorem build_never_throws_witness:
  "fst (build site 2 ''/site/draft.html'' Undefined site_taft) = Ret None
   \<and> fst (build site 2 ''/site/posts'' Undefined site_taft) = Ret None
   \<and> fst (build site 2 ''/site/absent.html'' Undefined site_taft)
       = Ret (Some \<lparr>body = [], data = [], source = Some ''/site/absent.html''\<rparr>)
   \<and> console (snd (build site 2 ''/site/absent.html'' Undefined site_taft))
       = [''error building /site/absent.html: ENOENT: no such file or directory'']
   \<and> fst (build site 2 ''/site/bad.html'' Undefined site_taft)
       \<noteq> Threw (JsError None ''unable to render layout broken (Parse error on line 1)'')"
proof -
  let ?dir = "JsError (Some ''EISDIR'') ''EISDIR: illegal operation on a directory, read''"
  let ?no = "JsError (Some ''ENOENT'') ''ENOENT: no such file or directory''"
  have g1: "gm_read site (p_resolve site ''/site/draft.html'')
              = Inr ([(''published'', JBool False)], ''draft'')
            \<and> unpublished [(''published'', JBool False)]"
    by code_simp
  have g2: "gm_read site (p_resolve site ''/site/posts'') = Inl ?dir \<and> code ?dir = Some ''EISDIR''"
    by code_simp
  have g3: "gm_read site (p_resolve site ''/site/absent.html'') = Inl ?no
            \<and> code ?no \<noteq> Some ''EISDIR''"
    by code_simp
  have c: "console site_taft = []" by code_simp
  have 1: "fst (build site 2 ''/site/draft.html'' Undefined site_taft) = Ret None"
    using build_never_throws [of site 2 "''/site/draft.html''" Undefined site_taft] g1 by blast
  have 2: "build site 2 ''/site/posts'' Undefined site_taft = (Ret None, site_taft)"
    using build_never_throws [of site 2 "''/site/posts''" Undefined site_taft] g2 by blast
  have 3: "build site 2 ''/site/absent.html'' Undefined site_taft
       = (Ret (Some \<lparr>body = [], data = [], source = Some ''/site/absent.html''\<rparr>),
          err (''error building '' @ ''/site/absent.html'' @ '': '' @ message ?no) site_taft)"
    using build_never_throws [of site 2 "''/site/absent.html''" Undefined site_taft] g3 by blast
  have 4: "fst (build site 2 ''/site/bad.html'' Undefined site_taft)
       \<noteq> Threw (JsError None ''unable to render layout broken (Parse error on line 1)'')"
    using build_never_throws [of site 2 "''/site/bad.html''" Undefined site_taft] by blast
  show ?thesis
    using 1 2 3 4 by (simp add: err_def c)
qed

lemma hb_partials_debug: "hb_partials (debug m st) = hb_partials st"
  by (simp add: debug_def)

text \<open>
  Claim C4, as the code has it.  When the page compiles and renders, its layout resolves
  and the layout's render throws \<open>e\<close>, then \<open>_applyLayout\<close> throws a new error whose
  message is \<open>unable to render layout\<close>, the layout name and the message of \<open>e\<close> in
  brackets, after unregistering \<open>body\<close>; the page's closure throws that same error; and
  \<open>build\<close> catches it: it writes \<open>error building file: message\<close> to the console and
  returns an empty Content with \<open>source\<close> set.  The error does not reach the caller of
  \<open>build\<close>.
\<close>

theorem layout_error_wrapped_then_logged:
  assumes ct: "createTemplate E (p_resolve E file) False st = (Inr (Some t), st1)"
    and M: "M = clear_own_layout E (tpl_file t) (tplData_merge False (tpl_data t) d)"
    and own: "hb_render E (hb_partials st1) (tpl_page t) M = Inr s"
    and tr: "truthy (obj_get M ''layout'')"
    and gl: "getLayout E (obj_get M ''layout'') (debug (''building: '' @ file) st1)
               = (Inr (Some lt), st2)"
    and lr: "render E n lt (Obj (data (set_page False (new_Content s M)))) True
               (registerPartial ''body'' s st2) = (Threw e, st3)"
    and W: "W = ''unable to render layout '' @ to_str (obj_get M ''layout'')
                  @ '' ('' @ message e @ '')''"
  shows "applyLayout E (Suc n) (obj_get M ''layout'') (new_Content s M) False
             (debug (''building: '' @ file) st1)
           = (Threw (new_Error W), unregisterPartial ''body'' st3)
       \<and> render E (Suc n) t d False (debug (''building: '' @ file) st1)
           = (Threw (new_Error W), unregisterPartial ''body'' st3)
       \<and> build E (Suc n) file d st
           = (Ret (Some \<lparr>body = [], data = [], source = Some file\<rparr>),
              err (''error building '' @ file @ '': '' @ W) (unregisterPartial ''body'' st3))"
proof -
  define stb where "stb = debug (''building: '' @ file) st1"
  have il: "tpl_isLayout t = False" using createTemplate_isLayout [OF ct] by simp
  have b: "content_toString (new_Content s M) = s"
    by (simp add: content_toString_def new_Content_def)
  have gl': "getLayout E (obj_get M ''layout'') stb = (Inr (Some lt), st2)"
    using gl by (simp only: stb_def)
  have hp: "hb_partials stb = hb_partials st1"
    by (simp add: stb_def hb_partials_debug)
  have a: "applyLayout E (Suc n) (obj_get M ''layout'') (new_Content s M) False stb
           = (Threw (new_Error W), unregisterPartial ''body'' st3)"
    using tr by (simp add: applyLayout.simps gl' b lr catch_finally_def W)
  have r: "render E (Suc n) t d False stb = (Threw (new_Error W), unregisterPartial ''body'' st3)"
    by (simp add: render.simps M [symmetric] hp own il a)
  have "build E (Suc n) file d st
           = (Ret (Some \<lparr>body = [], data = [], source = Some file\<rparr>),
              err (''error building '' @ file @ '': '' @ W) (unregisterPartial ''body'' st3))"
    using r [unfolded stb_def]
    by (simp add: build_def ct build_catch_def new_Error_def empty_Content_def new_Content_def)
  with a r show ?thesis by (simp only: stb_def)
qed

theorem layout_error_wrapped_then_logged_witness:
  "fst (build site 2 ''/site/bad.html'' Undefined site_taft)
     = Ret (Some \<lparr>body = [], data = [], source = Some ''/site/bad.html''\<rparr>)
   \<and> console (snd (build site 2 ''/site/bad.html'' Undefined site_taft))
     = [''error building /site/bad.html: unable to render layout broken (Parse error on line 1)'']"
proof -
  let ?t = "\<lparr>tpl_file = ''/site/bad.html'', tpl_page = ''bad'',
           tpl_data = [(''site'', Str ''X''), (''title'', Str ''Default''),
                       (''nav'', Obj [(''home'', Str ''/'')]), (''layout'', Str ''broken'')],
           tpl_isLayout = False\<rparr>"
  let ?M = "[(''site'', Str ''X''), (''title'', Str ''Default''),
             (''nav'', Obj [(''home'', Str ''/'')]), (''layout'', Str ''broken'')]"
  let ?lt = "\<lparr>tpl_file = ''/site/layouts/broken.html'', tpl_page = ''{{#oops}}'',
             tpl_data = [(''site'', Str ''X''), (''title'', Str ''Default''),
                         (''nav'', Obj [(''home'', Str ''/'')])],
             tpl_isLayout = True\<rparr>"
  let ?e = "JsError None ''Parse error on line 1''"
  let ?ct = "createTemplate site (p_resolve site ''/site/bad.html'') False site_taft"
  let ?gl = "getLayout site (obj_get ?M ''layout'') (debug (''building: '' @ ''/site/bad.html'') (snd ?ct))"
  let ?lr = "render site 1 ?lt (Obj (data (set_page False (new_Content ''bad'' ?M)))) True
               (registerPartial ''body'' ''bad'' (snd ?gl))"
  have "fst ?ct = Inr (Some ?t)" by code_simp
  then have ct: "?ct = (Inr (Some ?t), snd ?ct)" by (metis prod.collapse)
  have M: "?M = clear_own_layout site (tpl_file ?t) (tplData_merge False (tpl_data ?t) Undefined)"
    by code_simp
  have own: "hb_render site (hb_partials (snd ?ct)) (tpl_page ?t) ?M = Inr ''bad''"
    by code_simp
  have tr: "truthy (obj_get ?M ''layout'')" by code_simp
  have "fst ?gl = Inr (Some ?lt)" by code_simp
  then have gl: "?gl = (Inr (Some ?lt), snd ?gl)" by (metis prod.collapse)
  have "fst ?lr = Threw ?e" by code_simp
  then have lr: "?lr = (Threw ?e, snd ?lr)" by (metis prod.collapse)
  have W: "''unable to render layout broken (Parse error on line 1)''
      = ''unable to render layout '' @ to_str (obj_get ?M ''layout'') @ '' ('' @ message ?e @ '')''"
    by code_simp
  have c: "console (unregisterPartial ''body'' (snd ?lr)) = []" by code_simp
  note th = layout_error_wrapped_then_logged [OF ct M own tr gl lr W]
  show ?thesis
    using th c by (simp add: new_Error_def err_def numeral_2_eq_2)
qed

text \<open>
  Against C4 as stated: the layout \<open>broken\<close> throws when rendered, and \<open>build\<close> of the
  page that uses it returns a Content.
\<close>

theorem layout_error_counterexample:
  "fst (applyLayout site 2 (Str ''broken'') page_content False site_taft)
     = Threw (JsError None ''unable to render layout broken (Parse error on line 1)'')
   \<and> fst (build site 2 ''/site/bad.html'' Undefined site_taft)
     = Ret (Some \<lparr>body = [], data = [], source = Some ''/site/bad.html''\<rparr>)"
  by code_simp

section \<open>The default layout\<close>




subsection \<open>What leaves the registry and the default alone\<close>

lemma layout_view_console [simp]:
  "layout_view (err m st) = layout_view st"
  "layout_view (info m st) = layout_view st"
  "layout_view (debug m st) = layout_view st"
  "layout_view (registerPartial n s st) = layout_view st"
  "layout_view (unregisterPartial n st) = layout_view st"
  "layout_view (merge_into_data d st) = layout_view st"
  by (simp_all add: layout_view_def err_def info_def debug_def registerPartial_def
        unregisterPartial_def merge_into_data_def)

lemma layout_view_data_callback [simp]: "layout_view (data_callback a r st) = layout_view st"
  by (auto simp: data_callback_def split: prod.splits option.splits)

lemma layout_view_data_argument [simp]: "layout_view (data_argument E a st) = layout_view st"
proof -
  have "layout_view (fold (data_callback a) rs st) = layout_view st" for rs
    by (induction rs arbitrary: st) simp_all
  then show ?thesis by (simp add: data_argument_def)
qed

lemma layout_view_data_add [simp]: "layout_view (data_add E as st) = layout_view st"
  unfolding data_add_def by (induction as arbitrary: st) simp_all

lemma layout_view_createTemplate [simp]:
  "layout_view (snd (createTemplate E f l st)) = layout_view st"
  by (auto simp: createTemplate_def assign_layout_def Let_def
           split: sum.splits prod.splits if_splits option.splits)

lemma layout_view_layouts_set_key:
  "n \<in> set (map fst (t_layouts st)) \<Longrightarrow> layout_view (layouts_set n w st) = layout_view st"
  by (simp add: layout_view_def layouts_set_def update_keys)

lemma layout_view_memoize:
  assumes "createTemplate E p l st = (r, st1)" and "map_of (t_layouts st) n = Some v"
  shows "layout_view (layouts_set n w st1) = layout_view st"
proof -
  have v1: "layout_view st1 = layout_view st"
    using layout_view_createTemplate [of E p l st] assms(1) by simp
  have "(n, v) \<in> set (t_layouts st)"
    using assms(2) by (rule map_of_SomeD)
  then have "fst (n, v) \<in> fst ` set (t_layouts st)"
    by (rule imageI)
  then have "n \<in> set (map fst (t_layouts st1))"
    using v1 by (simp add: layout_view_def)
  then show ?thesis
    using v1 by (simp add: layout_view_layouts_set_key)
qed

lemma layout_view_getLayout [simp]: "layout_view (snd (getLayout E name st)) = layout_view st"
proof (cases name)
  case (Str s)
  define n where "n = (if p_extname E s \<noteq> [] then stripExtname E s else s)"
  have g: "getLayout E (Str s) st =
     (case map_of (t_layouts st) n of
                None \<Rightarrow> (Inr None, err (''could not find layout: '' @ n) st)
              | Some (LPath p) \<Rightarrow>
                  (case createTemplate E p True st of
                     (Inl e, st1) \<Rightarrow> (Inl e, st1)
                   | (Inr t, st1) \<Rightarrow> (Inr t, layouts_set n (entry_of t) st1))
              | Some (LTemplate t) \<Rightarrow> (Inr (Some t), st)
              | Some LUndefined \<Rightarrow> (Inr None, st))"
    by (simp only: getLayout_def Let_def n_def jsval.case)
  show ?thesis
  proof (cases "map_of (t_layouts st) n")
    case None
    then show ?thesis by (simp add: Str g)
  next
    case (Some v)
    show ?thesis
    proof (cases v)
      case (LPath p)
      obtain r st1 where c: "createTemplate E p True st = (r, st1)"
        by (cases "createTemplate E p True st")
      have v1: "layout_view st1 = layout_view st"
        using layout_view_createTemplate [of E p True st] c by simp
      have v2: "layout_view (layouts_set n w st1) = layout_view st" for w
        using c Some by (rule layout_view_memoize)
      show ?thesis
        by (cases r) (simp_all add: Str g Some LPath c v1 v2)
    next
      case (LTemplate t)
      then show ?thesis by (simp add: Str g Some)
    next
      case LUndefined
      then show ?thesis by (simp add: Str g Some)
    qed
  qed
qed (simp_all add: getLayout_def)

lemma layout_view_catch_finally:
  "layout_view (snd (catch_finally layout r)) = layout_view (snd r)"
  by (cases r) (auto simp: catch_finally_def split: outcome.splits)

lemma layout_view_applyLayout_render:
  "layout_view (snd (applyLayout E fuel layout c isLayout st)) = layout_view st"
  "layout_view (snd (render E fuel t pageData preferGlobal st)) = layout_view st"
proof (induction E fuel layout c isLayout st and E fuel t pageData preferGlobal st
       rule: applyLayout_render.induct)
  case (1 E fuel layout c isLayout st)
  show ?case
  proof (cases "truthy layout")
    case False
    then show ?thesis by (simp add: applyLayout.simps)
  next
    case True
    then have nn: "\<not> \<not> truthy layout" by simp
    obtain r st1 where g: "getLayout E layout st = (r, st1)" by (cases "getLayout E layout st")
    then have v1: "layout_view st1 = layout_view st"
      using layout_view_getLayout [of E layout st] by simp
    show ?thesis
    proof (cases r)
      case (Inl e)
      then show ?thesis
        using True by (simp add: applyLayout.simps g layout_view_catch_finally v1)
    next
      case (Inr ot)
      show ?thesis
      proof (cases ot)
        case None
        then show ?thesis
          using True by (simp add: applyLayout.simps g Inr layout_view_catch_finally v1)
      next
        case (Some lt)
        show ?thesis
        proof (cases fuel)
          case 0
          then show ?thesis
            using True by (simp add: applyLayout.simps g Inr Some layout_view_catch_finally v1)
        next
          case (Suc n)
          have "layout_view
                  (snd (render E n lt (Obj (data (set_page isLayout c))) True
                          (registerPartial ''body'' (content_toString c) st1)))
                = layout_view (registerPartial ''body'' (content_toString c) st1)"
            using "1.IH" [OF nn g [symmetric] Inr Some refl refl Suc] .
          then show ?thesis
            using True
            by (simp add: applyLayout.simps g Inr Some Suc layout_view_catch_finally v1)
        qed
      qed
    qed
  qed
next
  case (2 E fuel t pageData preferGlobal st)
  show ?case
  proof (cases "hb_render E (hb_partials st) (tpl_page t)
                  (clear_own_layout E (tpl_file t) (tplData_merge preferGlobal (tpl_data t) pageData))")
    case (Inl e)
    then show ?thesis by (simp add: render.simps)
  next
    case (Inr s)
    then show ?thesis
      using "2.IH" [OF refl Inr] by (simp add: render.simps Let_def)
  qed
qed

lemma layout_view_build [simp]: "layout_view (snd (build E fuel file d st)) = layout_view st"
proof -
  obtain r st1 where c: "createTemplate E (p_resolve E file) False st = (r, st1)"
    by (cases "createTemplate E (p_resolve E file) False st")
  have v1: "layout_view st1 = layout_view st"
    using layout_view_createTemplate [of E "p_resolve E file" False st] c by simp
  have bc: "layout_view (snd (build_catch file e s)) = layout_view s" for e s
    by (simp add: build_catch_def)
  show ?thesis
  proof (cases r)
    case (Inl e)
    then show ?thesis by (simp add: build_def c bc v1)
  next
    case (Inr ot)
    show ?thesis
    proof (cases ot)
      case None
      then show ?thesis by (simp add: build_def c Inr v1)
    next
      case (Some t)
      let ?r = "render E fuel t d False (debug (''building: '' @ file) st1)"
      have "layout_view (snd ?r) = layout_view st"
        by (simp only: layout_view_applyLayout_render layout_view_console v1)
      then show ?thesis
        by (cases ?r; cases "fst ?r") (simp_all add: build_def c Inr Some bc)
    qed
  qed
qed

lemma view_eq_fields:
  "layout_view a = layout_view b \<Longrightarrow>
     map fst (t_layouts a) = map fst (t_layouts b) \<and> t_defaultLayout a = t_defaultLayout b
     \<and> options_defaultLayout a = options_defaultLayout b"
  by (simp add: layout_view_def)

subsection \<open>\<open>layouts\<close>\<close>

lemma fold_layouts_set:
  "options_defaultLayout (fold (\<lambda>item. layouts_set (f item) (g item)) items st) = options_defaultLayout st
   \<and> t_defaultLayout (fold (\<lambda>item. layouts_set (f item) (g item)) items st) = t_defaultLayout st
   \<and> set (map fst (t_layouts st))
        \<subseteq> set (map fst (t_layouts (fold (\<lambda>item. layouts_set (f item) (g item)) items st)))
   \<and> (distinct (map fst (t_layouts st))
        \<longrightarrow> distinct (map fst (t_layouts (fold (\<lambda>item. layouts_set (f item) (g item)) items st))))"
proof (induction items arbitrary: st)
  case Nil
  show ?case by simp
next
  case (Cons x xs)
  have 1: "options_defaultLayout (layouts_set n v st) = options_defaultLayout st"
    "t_defaultLayout (layouts_set n v st) = t_defaultLayout st"
    "set (map fst (t_layouts st)) \<subseteq> set (map fst (t_layouts (layouts_set n v st)))"
    "distinct (map fst (t_layouts st)) \<longrightarrow> distinct (map fst (t_layouts (layouts_set n v st)))"
    for n v
    by (auto simp: layouts_set_def dom_update distinct_update)
  show ?case
    using Cons.IH [of "layouts_set (f x) (g x) st"] 1 [of "f x" "g x"]
    by auto
qed

text \<open>
  What \<open>layouts\<close> does to the default: the only key of a registry of one layout,
  else the option when it is set, else what it was.
\<close>

lemma layouts_add_default:
  "t_defaultLayout (layouts_add E items st) =
     (case t_layouts (layouts_add E items st) of
        [(k, v)] \<Rightarrow> Some k
      | _ \<Rightarrow>
         (case options_defaultLayout st of
            None \<Rightarrow> t_defaultLayout st
          | Some d \<Rightarrow> if d \<noteq> [] then Some (stripExtname E d) else t_defaultLayout st))"
proof -
  define st1 where
    "st1 = fold (\<lambda>item. layouts_set (stripExtname E item) (LPath item)) (merge_glob E items) st"
  have f: "options_defaultLayout st1 = options_defaultLayout st" "t_defaultLayout st1 = t_defaultLayout st"
    using fold_layouts_set [of "stripExtname E" LPath "merge_glob E items" st]
    by (simp_all add: st1_def)
  have p: "t_layouts (debug m s) = t_layouts s" "t_defaultLayout (debug m s) = t_defaultLayout s"
    "options_defaultLayout (debug m s) = options_defaultLayout s" for m s
    by (simp_all add: debug_def)
  show ?thesis
    unfolding layouts_add_def st1_def [symmetric] Let_def
    by (auto simp: p f split: list.splits option.splits prod.splits)
qed

lemma layouts_add_keys:
  "options_defaultLayout (layouts_add E items st) = options_defaultLayout st
   \<and> set (map fst (t_layouts st)) \<subseteq> set (map fst (t_layouts (layouts_add E items st)))
   \<and> (distinct (map fst (t_layouts st)) \<longrightarrow> distinct (map fst (t_layouts (layouts_add E items st))))"
proof -
  define st1 where
    "st1 = fold (\<lambda>item. layouts_set (stripExtname E item) (LPath item)) (merge_glob E items) st"
  note f = fold_layouts_set [of "stripExtname E" LPath "merge_glob E items" st, folded st1_def]
  have p: "t_layouts (debug m s) = t_layouts s" "t_defaultLayout (debug m s) = t_defaultLayout s"
    "options_defaultLayout (debug m s) = options_defaultLayout s" for m s
    by (simp_all add: debug_def)
  have "options_defaultLayout (layouts_add E items st) = options_defaultLayout st1
      \<and> t_layouts (layouts_add E items st) = t_layouts st1"
    unfolding layouts_add_def st1_def [symmetric] Let_def
    by (auto simp: p split: list.splits option.splits prod.splits)
  with f show ?thesis by simp
qed

text \<open>
  In every reachable instance the keys of \<open>_layouts\<close> are distinct, so that the list
  is a singleton exactly when the Map has size one; and, when the \<open>defaultLayout\<close> option
  is not set, a default that is set names a registered layout.
\<close>

lemma reachable_layouts_distinct: "reachable E st \<Longrightarrow> distinct (map fst (t_layouts st))"
proof (induction rule: reachable.induct)
  case (fresh st)
  then show ?case by simp
next
  case (data st arguments)
  then show ?case using view_eq_fields [OF layout_view_data_add, of E arguments st] by simp
next
  case (layouts st items)
  then show ?case using layouts_add_keys [of E items st] by simp
next
  case (defaultLayout st layout)
  then show ?case by (simp add: defaultLayout_set_def Let_def info_def)
next
  case (build st fuel f d)
  then show ?case using view_eq_fields [OF layout_view_build, of E fuel f d st] by simp
next
  case (registry st ps out)
  then show ?case by simp
qed

lemma reachable_default_registered:
  "reachable E st \<Longrightarrow> \<not> truthy_str (options_defaultLayout st) \<Longrightarrow> t_defaultLayout st = Some d
     \<Longrightarrow> layouts_has st d"
proof (induction arbitrary: d rule: reachable.induct)
  case (fresh st)
  then show ?case by simp
next
  case (data st arguments)
  then show ?case
    using view_eq_fields [OF layout_view_data_add, of E arguments st]
    by (simp add: layouts_has_def)
next
  case (layouts st items)
  let ?st = "layouts_add E items st"
  note k = layouts_add_keys [of E items st]
  have o: "\<not> truthy_str (options_defaultLayout st)" using layouts.prems(1) k by simp
  show ?case
  proof (cases "\<exists>k v. t_layouts ?st = [(k, v)]")
    case True
    then obtain k v where s: "t_layouts ?st = [(k, v)]" by blast
    then have "t_defaultLayout ?st = Some k" by (simp add: layouts_add_default)
    with layouts.prems(2) s show ?thesis by (simp add: layouts_has_def)
  next
    case False
    then have "t_defaultLayout ?st = t_defaultLayout st"
      using o
      by (simp add: layouts_add_default [of E items st] truthy_str_def
               split: list.splits option.splits prod.splits)
    with layouts.prems(2) have "layouts_has st d" using layouts.IH [OF o] by simp
    with k show ?thesis by (auto simp: layouts_has_def)
  qed
next
  case (defaultLayout st layout)
  then show ?case
    by (auto simp: defaultLayout_set_def Let_def info_def layouts_has_def split: if_splits)
next
  case (build st fuel f d0)
  then show ?case
    using view_eq_fields [OF layout_view_build, of E fuel f d0 st]
    by (simp add: layouts_has_def)
next
  case (registry st ps out)
  then show ?case by (simp add: layouts_has_def)
qed

text \<open>
  Claim C6.  In every reachable instance, after \<open>layouts(items)\<close>: if the registry holds
  exactly one layout, that layout is the default; if the caller gave no \<open>defaultLayout\<close>
  option, a default that was set before the call is still the default after it, however
  many layouts were added; and the one thing that replaces a default when layouts are
  added is the caller's own \<open>defaultLayout\<close> option, which becomes the default whenever
  the registry does not hold exactly one layout.
\<close>

theorem default_layout_rule:
  assumes "reachable E st"
  shows "(\<forall>k v. t_layouts (layouts_add E items st) = [(k, v)]
            \<longrightarrow> t_defaultLayout (layouts_add E items st) = Some k)
       \<and> (\<not> truthy_str (options_defaultLayout st)
            \<longrightarrow> (\<forall>d. t_defaultLayout st = Some d
                   \<longrightarrow> t_defaultLayout (layouts_add E items st) = Some d))
       \<and> (\<forall>opt. options_defaultLayout st = Some opt \<and> opt \<noteq> []
                 \<and> length (t_layouts (layouts_add E items st)) \<noteq> 1
            \<longrightarrow> t_defaultLayout (layouts_add E items st) = Some (stripExtname E opt))"
proof (intro conjI allI impI)
  fix k v assume "t_layouts (layouts_add E items st) = [(k, v)]"
  then show "t_defaultLayout (layouts_add E items st) = Some k"
    by (simp add: layouts_add_default)
next
  fix d assume o: "\<not> truthy_str (options_defaultLayout st)" and d: "t_defaultLayout st = Some d"
  let ?st = "layouts_add E items st"
  have reg: "layouts_has st d" using assms o d by (rule reachable_default_registered)
  then have in': "d \<in> set (map fst (t_layouts ?st))"
    using layouts_add_keys [of E items st] by (auto simp: layouts_has_def)
  show "t_defaultLayout ?st = Some d"
  proof (cases "\<exists>k v. t_layouts ?st = [(k, v)]")
    case True
    then obtain k v where s: "t_layouts ?st = [(k, v)]" by blast
    with in' have "k = d" by simp
    with s show ?thesis by (simp add: layouts_add_default)
  next
    case False
    then show ?thesis
      using o d
      by (simp add: layouts_add_default [of E items st] truthy_str_def
               split: list.splits option.splits prod.splits)
  qed
next
  fix opt
  assume "options_defaultLayout st = Some opt \<and> opt \<noteq> []
            \<and> length (t_layouts (layouts_add E items st)) \<noteq> 1"
  then show "t_defaultLayout (layouts_add E items st) = Some (stripExtname E opt)"
    by (auto simp: layouts_add_default [of E items st] split: list.splits prod.splits)
qed

theorem default_layout_rule_witness:
  "t_defaultLayout (layouts_add site [''/site/layouts/main.html''] taft0) = Some ''main''
   \<and> t_defaultLayout
        (layouts_add site [''/site/layouts/broken.html'']
           (layouts_add site [''/site/layouts/main.html''] taft0)) = Some ''main''
   \<and> t_defaultLayout
        (layouts_add site [''/site/layouts/main.html'', ''/site/layouts/broken.html'']
           (taft0\<lparr>options_defaultLayout := Some ''broken.html''\<rparr>)) = Some ''broken''"
proof -
  let ?one = "layouts_add site [''/site/layouts/main.html''] taft0"
  let ?opt = "taft0\<lparr>options_defaultLayout := Some ''broken.html''\<rparr>"
  have r0: "reachable site taft0" by (rule reachable.fresh) (simp_all add: taft0_def)
  then have r1: "reachable site ?one" by (rule reachable.layouts)
  have r2: "reachable site ?opt" by (rule reachable.fresh) (simp_all add: taft0_def)
  have l1: "t_layouts ?one = [(''main'', LPath ''/site/layouts/main.html'')]" by code_simp
  have o1: "\<not> truthy_str (options_defaultLayout ?one)" by code_simp
  have 1: "t_defaultLayout ?one = Some ''main''"
    using default_layout_rule [OF r0, of "[''/site/layouts/main.html'']"] l1 by blast
  have 2: "t_defaultLayout (layouts_add site [''/site/layouts/broken.html''] ?one) = Some ''main''"
    using default_layout_rule [OF r1, of "[''/site/layouts/broken.html'']"] o1 1 by blast
  have o3: "options_defaultLayout ?opt = Some ''broken.html'' \<and> ''broken.html'' \<noteq> []
     \<and> length (t_layouts (layouts_add site
          [''/site/layouts/main.html'', ''/site/layouts/broken.html''] ?opt)) \<noteq> 1"
    by code_simp
  have s: "stripExtname site ''broken.html'' = ''broken''" by code_simp
  have 3: "t_defaultLayout (layouts_add site
          [''/site/layouts/main.html'', ''/site/layouts/broken.html''] ?opt) = Some ''broken''"
    using default_layout_rule [OF r2, of "[''/site/layouts/main.html'', ''/site/layouts/broken.html'']"]
      o3 s by metis
  from 1 2 3 show ?thesis by simp
qed

end
